theory Spec2Isabelle
  imports Complex_Main
begin

section \<open>The session manager of the properties extension (Context/Session.ts)\<close>

text \<open>
  The development embeds \<^verbatim>\<open>_SessionManager\<close> of
  \<^verbatim>\<open>extensions/applicationinsights-properties-js/src/Context/Session.ts\<close>:
  the session record, the lazy initialisation from the cookie or from local storage, the
  parser of the persisted payload, the renewal rules of \<^verbatim>\<open>update\<close> and the two writers.
  Mutation is explicit state passing over a pair of the manager's fields and the host
  (cookie jar, local storage, clock, id generator, logger).
\<close>

subsection \<open>JavaScript numbers\<close>

text \<open>
  A JavaScript number is \<^verbatim>\<open>NaN\<close>, an infinity or a finite double. A finite value is
  held as the rational it denotes, and every operation that can round (addition,
  subtraction, the conversion of a numeric string) rounds its exact result to the nearest
  double, ties to even, as IEEE 754 binary64 does. The sign of zero is not modelled
  (nothing in this file can tell \<open>-0\<close> from \<open>+0\<close>).
\<close>

datatype number = NaN | PInf | NInf | Fin rat

text \<open>The number of binary digits of a positive integer, and powers of two.\<close>

function bitLength :: "int \<Rightarrow> nat" where
  "bitLength n = (if n \<le> 0 then 0 else Suc (bitLength (n div 2)))"
  by pat_completeness auto
termination
  by (relation "measure nat") auto

definition twoPow :: "int \<Rightarrow> rat" where
  "twoPow e = (if 0 \<le> e then 2 ^ nat e else 1 / 2 ^ nat (- e))"

text \<open>The binary exponent of a positive rational \<open>a\<close>: the \<open>e\<close> with
  \<open>2^e \<le> a < 2^(e+1)\<close>.\<close>

definition binade :: "rat \<Rightarrow> int" where
  "binade a =
     (if 1 \<le> a then int (bitLength \<lfloor>a\<rfloor>) - 1
      else - int (bitLength (\<lceil>1 / a\<rceil> - 1)))"

text \<open>Rounding to the nearest integer, ties to the even one.\<close>

definition roundHalfEven :: "rat \<Rightarrow> int" where
  "roundHalfEven x =
     (let f = \<lfloor>x\<rfloor>; d = x - of_int f
      in if d < 1 / 2 then f else if 1 / 2 < d then f + 1 else if even f then f else f + 1)"

text \<open>
  Rounding of an exact result to binary64: a significand of 53 bits, the least exponent
  -1022 (below it the spacing stays \<open>2^-1074\<close>), and an infinity once the rounded
  magnitude reaches \<open>2^1024\<close>.
\<close>

definition round64 :: "rat \<Rightarrow> number" where
  "round64 q =
     (if q = 0 then Fin 0
      else
        let a = \<bar>q\<bar>;
            e = max (binade a) (- 1022);
            ulp = twoPow (e - 52);
            r = of_int (roundHalfEven (a / ulp)) * ulp
        in if twoPow 1024 \<le> r then (if 0 < q then PInf else NInf)
           else Fin (if 0 < q then r else - r))"

text \<open>A rational that is a double.\<close>

definition representable :: "rat \<Rightarrow> bool" where
  "representable q = (round64 q = Fin q)"

text \<open>\<^verbatim>\<open>x + y\<close> on numbers; adding zero changes nothing.\<close>

fun js_add :: "number \<Rightarrow> number \<Rightarrow> number" where
  "js_add NaN y = NaN"
| "js_add x NaN = NaN"
| "js_add PInf NInf = NaN"
| "js_add NInf PInf = NaN"
| "js_add PInf y = PInf"
| "js_add x PInf = PInf"
| "js_add NInf y = NInf"
| "js_add x NInf = NInf"
| "js_add (Fin a) (Fin b) =
     (if b = 0 then Fin a else if a = 0 then Fin b else round64 (a + b))"

text \<open>Unary minus, and \<^verbatim>\<open>x - y\<close> as \<open>x + (-y)\<close>.\<close>

fun js_neg :: "number \<Rightarrow> number" where
  "js_neg NaN = NaN"
| "js_neg PInf = NInf"
| "js_neg NInf = PInf"
| "js_neg (Fin a) = Fin (- a)"

definition js_sub :: "number \<Rightarrow> number \<Rightarrow> number" where
  "js_sub x y = js_add x (js_neg y)"

text \<open>\<^verbatim>\<open>x < y\<close> and \<^verbatim>\<open>x > y\<close>: false as soon as one side is \<^verbatim>\<open>NaN\<close>.\<close>

fun js_lt :: "number \<Rightarrow> number \<Rightarrow> bool" where
  "js_lt NaN y = False"
| "js_lt x NaN = False"
| "js_lt x NInf = False"
| "js_lt NInf y = True"
| "js_lt PInf y = False"
| "js_lt x PInf = True"
| "js_lt (Fin a) (Fin b) = (a < b)"

definition js_gt :: "number \<Rightarrow> number \<Rightarrow> bool" where
  "js_gt x y = js_lt y x"

text \<open>\<^verbatim>\<open>Math.min\<close> on two numbers: \<^verbatim>\<open>NaN\<close> when either is.\<close>

fun js_min :: "number \<Rightarrow> number \<Rightarrow> number" where
  "js_min NaN y = NaN"
| "js_min x NaN = NaN"
| "js_min x y = (if js_lt x y then x else y)"

text \<open>
  A field that may be \<^verbatim>\<open>undefined\<close> is an option; in arithmetic \<^verbatim>\<open>undefined\<close>
  converts to \<^verbatim>\<open>NaN\<close>.
\<close>

fun ToNumber :: "number option \<Rightarrow> number" where
  "ToNumber None = NaN"
| "ToNumber (Some x) = x"

text \<open>Truthiness: \<^verbatim>\<open>!x\<close> holds of \<^verbatim>\<open>undefined\<close>, the empty string, zero and \<^verbatim>\<open>NaN\<close>.\<close>

fun not_string :: "string option \<Rightarrow> bool" where
  "not_string None = True"
| "not_string (Some s) = (s = [])"

fun not_number :: "number option \<Rightarrow> bool" where
  "not_number None = True"
| "not_number (Some NaN) = True"
| "not_number (Some (Fin q)) = (q = 0)"
| "not_number (Some x) = False"

text \<open>
  The time value of a \<^verbatim>\<open>Date\<close> built from a number, or set by \<^verbatim>\<open>setTime\<close>
  (\<^verbatim>\<open>TimeClip\<close>): \<^verbatim>\<open>NaN\<close> unless the number is finite and within 8.64e15 ms of the
  epoch, and then truncated towards zero.
\<close>

definition ToInteger :: "rat \<Rightarrow> int" where
  "ToInteger q = (if 0 \<le> q then \<lfloor>q\<rfloor> else \<lceil>q\<rceil>)"

definition maxTime :: rat where
  "maxTime = 8640000000000000"

fun TimeClip :: "number \<Rightarrow> number" where
  "TimeClip (Fin q) = (if \<bar>q\<bar> > maxTime then NaN else Fin (of_int (ToInteger q)))"
| "TimeClip x = NaN"

subsection \<open>JavaScript strings\<close>

text \<open>\<^verbatim>\<open>s.split(d)\<close> for a one-character separator: never an empty array.\<close>

fun split :: "char \<Rightarrow> string \<Rightarrow> string list" where
  "split d [] = [[]]"
| "split d (c # cs) =
     (if c = d then [] # split d cs
      else (case split d cs of [] \<Rightarrow> [[c]] | w # ws \<Rightarrow> (c # w) # ws))"

text \<open>\<^verbatim>\<open>xs.join(d)\<close> on elements already converted to strings.\<close>

fun join :: "char \<Rightarrow> string list \<Rightarrow> string" where
  "join d [] = []"
| "join d [x] = x"
| "join d (x # y # ys) = x @ d # join d (y # ys)"

text \<open>Decimal digits of a natural number.\<close>

definition digit_char :: "nat \<Rightarrow> char" where
  "digit_char n = ''0123456789'' ! n"

fun digits_of :: "nat \<Rightarrow> string" where
  "digits_of n = (if n < 10 then [digit_char n] else digits_of (n div 10) @ [digit_char (n mod 10)])"

text \<open>
  The numeric string grammar of \<^verbatim>\<open>StringToNumber\<close>, which unary plus applies to a
  string: white space is trimmed, the empty string is zero, then a radix literal
  (\<^verbatim>\<open>0x\<close>, \<^verbatim>\<open>0o\<close>, \<^verbatim>\<open>0b\<close>) or a signed decimal literal with optional fraction and
  exponent, or \<^verbatim>\<open>Infinity\<close>; anything else is \<^verbatim>\<open>NaN\<close>. The value is the exact
  mathematical value of the literal rounded to the nearest double. Strings are lists of
  8-bit characters.
\<close>

definition is_ws :: "char \<Rightarrow> bool" where
  "is_ws c = (c = CHR 0x09 \<or> c = CHR 0x0A \<or> c = CHR 0x0B \<or> c = CHR 0x0C \<or> c = CHR 0x0D
     \<or> c = CHR 0x20 \<or> c = CHR 0xA0)"

definition trim :: "string \<Rightarrow> string" where
  "trim s = rev (dropWhile is_ws (rev (dropWhile is_ws s)))"

definition is_digit :: "char \<Rightarrow> bool" where
  "is_digit c = (48 \<le> (of_char c :: nat) \<and> (of_char c :: nat) \<le> 57)"

definition digit_val :: "char \<Rightarrow> nat" where
  "digit_val c = of_char c - 48"

definition MV :: "string \<Rightarrow> nat" where
  "MV ds = foldl (\<lambda>a c. 10 * a + digit_val c) 0 ds"

definition DecimalDigits :: "string \<Rightarrow> nat option" where
  "DecimalDigits s = (if s \<noteq> [] \<and> list_all is_digit s then Some (MV s) else None)"

definition radix_val :: "char \<Rightarrow> nat option" where
  "radix_val c =
     (let n = (of_char c :: nat) in
      if 48 \<le> n \<and> n \<le> 57 then Some (n - 48)
      else if 97 \<le> n \<and> n \<le> 102 then Some (n - 87)
      else if 65 \<le> n \<and> n \<le> 70 then Some (n - 55)
      else None)"

definition is_radix_digit :: "nat \<Rightarrow> char \<Rightarrow> bool" where
  "is_radix_digit r c = (case radix_val c of None \<Rightarrow> False | Some v \<Rightarrow> v < r)"

definition radix_literal :: "nat \<Rightarrow> string \<Rightarrow> number" where
  "radix_literal r ds =
     (if ds \<noteq> [] \<and> list_all (is_radix_digit r) ds
      then round64
             (of_nat (foldl (\<lambda>a c. r * a + (case radix_val c of None \<Rightarrow> 0 | Some v \<Rightarrow> v)) 0 ds))
      else NaN)"

definition SignedInteger :: "string \<Rightarrow> int option" where
  "SignedInteger s =
     (case s of
        [] \<Rightarrow> None
      | c # cs \<Rightarrow>
          if c = CHR ''+'' then map_option int (DecimalDigits cs)
          else if c = CHR ''-'' then map_option (\<lambda>n. - int n) (DecimalDigits cs)
          else map_option int (DecimalDigits s))"

definition pow10 :: "int \<Rightarrow> rat" where
  "pow10 e = (if 0 \<le> e then 10 ^ nat e else 1 / 10 ^ nat (- e))"

definition not_exp :: "char \<Rightarrow> bool" where
  "not_exp c = (c \<noteq> CHR ''e'' \<and> c \<noteq> CHR ''E'')"

definition not_dot :: "char \<Rightarrow> bool" where
  "not_dot c = (c \<noteq> CHR ''.'')"

definition StrUnsignedDecimalLiteral :: "string \<Rightarrow> number" where
  "StrUnsignedDecimalLiteral s =
     (if s = ''Infinity'' then PInf
      else
        let m = takeWhile not_exp s;
            r = dropWhile not_exp s;
            ip = takeWhile not_dot m;
            fr = dropWhile not_dot m;
            fd = drop 1 fr;
            ex = (if r = [] then Some 0 else SignedInteger (drop 1 r));
            ok = (list_all is_digit ip \<and> list_all is_digit fd
                  \<and> (if fr = [] then ip \<noteq> [] else \<not> (ip = [] \<and> fd = [])))
        in case ex of
             None \<Rightarrow> NaN
           | Some e \<Rightarrow>
               if ok then round64 ((of_nat (MV ip) + of_nat (MV fd) / 10 ^ length fd) * pow10 e)
               else NaN)"

definition StrDecimalLiteral :: "string \<Rightarrow> number" where
  "StrDecimalLiteral s =
     (case s of
        [] \<Rightarrow> NaN
      | c # cs \<Rightarrow>
          if c = CHR ''+'' then StrUnsignedDecimalLiteral cs
          else if c = CHR ''-'' then js_neg (StrUnsignedDecimalLiteral cs)
          else StrUnsignedDecimalLiteral s)"

definition StringToNumber :: "string \<Rightarrow> number" where
  "StringToNumber s =
     (let t = trim s in
      case t of
        [] \<Rightarrow> Fin 0
      | [a] \<Rightarrow> StrDecimalLiteral t
      | a # b # ds \<Rightarrow>
          if a = CHR ''0'' \<and> (b = CHR ''x'' \<or> b = CHR ''X'') then radix_literal 16 ds
          else if a = CHR ''0'' \<and> (b = CHR ''o'' \<or> b = CHR ''O'') then radix_literal 8 ds
          else if a = CHR ''0'' \<and> (b = CHR ''b'' \<or> b = CHR ''B'') then radix_literal 2 ds
          else StrDecimalLiteral t)"

text \<open>
  \<^verbatim>\<open>Number::toString\<close>, which \<^verbatim>\<open>join\<close> applies to a numeric element. An integer
  of magnitude below \<open>2^53\<close> prints as its decimal digits. Every other finite value (a
  fraction, or a larger number, which prints with the shortest digits that identify the
  double and in exponent form from 1e21 on) is rendered by a parameter \<open>render\<close>, the
  host's \<^verbatim>\<open>Number::toString\<close>.
\<close>

definition NumberToString :: "(rat \<Rightarrow> string) \<Rightarrow> number \<Rightarrow> string" where
  "NumberToString render x =
     (case x of
        NaN \<Rightarrow> ''NaN''
      | PInf \<Rightarrow> ''Infinity''
      | NInf \<Rightarrow> ''-Infinity''
      | Fin q \<Rightarrow>
          if of_int \<lfloor>q\<rfloor> = q \<and> \<bar>q\<bar> < 2 ^ 53
          then (if q < 0 then CHR ''-'' # digits_of (nat (- \<lfloor>q\<rfloor>)) else digits_of (nat \<lfloor>q\<rfloor>))
          else render q)"

text \<open>Values a variable of the parser can hold, and unary plus (\<^verbatim>\<open>ToNumber\<close>) on them.\<close>

datatype exn = TypeError

datatype jsval = Undefined | Str string | Num number | Symbol

fun unary_plus :: "jsval \<Rightarrow> exn + number" where
  "unary_plus Undefined = Inr NaN"
| "unary_plus (Str s) = Inr (StringToNumber s)"
| "unary_plus (Num x) = Inr x"
| "unary_plus Symbol = Inl TypeError"

text \<open>\<^verbatim>\<open>params[i]\<close> on an array of strings: \<^verbatim>\<open>undefined\<close> out of range.\<close>

definition element :: "string list \<Rightarrow> nat \<Rightarrow> jsval" where
  "element params i = (if i < length params then Str (params ! i) else Undefined)"

subsection \<open>Data model\<close>

record Session =
  id' :: "string option"
  acquisitionDate :: "number option"
  renewalDate :: "number option"

text \<open>\<^verbatim>\<open>ISessionConfig\<close> as the caller passes it: every accessor is optional.\<close>

record ISessionConfig =
  sessionRenewalMs' :: "(unit \<Rightarrow> number) option"
  sessionExpirationMs' :: "(unit \<Rightarrow> number) option"
  cookieDomain' :: "(unit \<Rightarrow> string) option"
  namePrefix' :: "(unit \<Rightarrow> string) option"

text \<open>The configuration after the constructor: both spans are functions.\<close>

record SessionConfig =
  sessionRenewalMs :: "unit \<Rightarrow> number"
  sessionExpirationMs :: "unit \<Rightarrow> number"
  cookieDomain :: "(unit \<Rightarrow> string) option"
  namePrefix :: "(unit \<Rightarrow> string) option"

record SessionManager =
  automaticSession :: Session
  config :: SessionConfig
  cookieUpdatedTimestamp :: "number option"

datatype LoggingSeverity = CRITICAL | WARNING

datatype InternalMessageId =
  ErrorParsingAISessionCookie | SessionRenewalDateIsZero | BrowserDoesNotSupportLocalStorage

text \<open>
  The host: what the imported helpers read and write. The clock and the id generator are
  sequences of results with a count of the calls made so far; every cookie write is
  recorded with its name, its value string and its domain. \<open>renderNumber\<close> and
  \<open>utcFormat\<close> are the renderings of the language that are not spelled out here.
\<close>

record host =
  cookies :: "string \<rightharpoonup> string"
  storage :: "string \<rightharpoonup> string"
  cookieWrites :: "(string \<times> string \<times> string option) list"
  clock :: "nat \<Rightarrow> rat"
  ticks :: nat
  idgen :: "nat \<Rightarrow> string"
  minted :: nat
  canUseLocalStorage :: bool
  logged :: "(LoggingSeverity \<times> InternalMessageId) list"
  renderNumber :: "rat \<Rightarrow> string"
  utcFormat :: "int \<Rightarrow> string"

definition acquisitionSpan :: rat where
  "acquisitionSpan = 86400000"

definition renewalSpan :: rat where
  "renewalSpan = 1800000"

definition cookieUpdateInterval :: rat where
  "cookieUpdateInterval = 60000"

definition cookieNameConst :: string where
  "cookieNameConst = ''ai_session''"

subsection \<open>Imported helpers\<close>

text \<open>Modelled from the spec: \<^verbatim>\<open>DateTimeUtils.Now\<close>, the clock (section 6, \<^verbatim>\<open>now()\<close>):
  milliseconds since the epoch, a finite number; each call takes the next reading.\<close>

definition DateTimeUtils_Now :: "host \<Rightarrow> rat \<times> host" where
  "DateTimeUtils_Now h = (clock h (ticks h), h\<lparr>ticks := Suc (ticks h)\<rparr>)"

text \<open>Modelled from the spec: \<^verbatim>\<open>Util.newId\<close>, the id generator (section 6, \<^verbatim>\<open>newId()\<close>):
  each call takes the next id.\<close>

definition Util_newId :: "host \<Rightarrow> string \<times> host" where
  "Util_newId h = (idgen h (minted h), h\<lparr>minted := Suc (minted h)\<rparr>)"

text \<open>Modelled from the spec: \<^verbatim>\<open>Util.getCookie\<close> (section 6, \<^verbatim>\<open>getCookie(key)\<close>): the
  string stored under the key, or absent.\<close>

definition Util_getCookie :: "host \<Rightarrow> string \<Rightarrow> string option" where
  "Util_getCookie h name = cookies h name"

text \<open>Modelled from the spec: \<^verbatim>\<open>Util.setCookie\<close> (section 6, \<^verbatim>\<open>setCookie\<close>): the value
  already holds the \<^verbatim>\<open>expires=\<close> directive; the write is handed to the browser.\<close>

definition Util_setCookie :: "host \<Rightarrow> string \<Rightarrow> string \<Rightarrow> string option \<Rightarrow> host" where
  "Util_setCookie h name v d = h\<lparr>cookieWrites := cookieWrites h @ [(name, v, d)]\<rparr>"

text \<open>Modelled from the spec: \<^verbatim>\<open>Util.getStorage\<close> (section 6, \<^verbatim>\<open>getStorage(key)\<close>).\<close>

definition Util_getStorage :: "host \<Rightarrow> string \<Rightarrow> string option" where
  "Util_getStorage h name = storage h name"

text \<open>Modelled from the spec: \<^verbatim>\<open>Util.setStorage\<close> (section 6, \<^verbatim>\<open>setStorage(key, value)\<close>).\<close>

definition Util_setStorage :: "host \<Rightarrow> string \<Rightarrow> string \<Rightarrow> host" where
  "Util_setStorage h name v = h\<lparr>storage := (storage h)(name \<mapsto> v)\<rparr>"

text \<open>Modelled from the spec: \<^verbatim>\<open>Util.canUseLocalStorage\<close> (section 6, \<^verbatim>\<open>canUseStorage()\<close>).\<close>

definition Util_canUseLocalStorage :: "host \<Rightarrow> bool" where
  "Util_canUseLocalStorage h = canUseLocalStorage h"

text \<open>Modelled from the spec: the logger's \<^verbatim>\<open>throwInternal\<close> (section 6, logging sink):
  fire and forget, it never throws.\<close>

definition throwInternal :: "LoggingSeverity \<Rightarrow> InternalMessageId \<Rightarrow> host \<Rightarrow> host" where
  "throwInternal sev msg h = h\<lparr>logged := logged h @ [(sev, msg)]\<rparr>"

text \<open>\<^verbatim>\<open>Date.prototype.toUTCString\<close> on a time value; the calendar rendering of a valid
  time value is the host's \<open>utcFormat\<close>.\<close>

definition toUTCString :: "host \<Rightarrow> number \<Rightarrow> string" where
  "toUTCString h tv = (case tv of Fin q \<Rightarrow> utcFormat h \<lfloor>q\<rfloor> | _ \<Rightarrow> ''Invalid Date'')"

text \<open>An array element as \<^verbatim>\<open>join\<close> converts it: \<^verbatim>\<open>undefined\<close> is the empty string.\<close>

definition guidString :: "string option \<Rightarrow> string" where
  "guidString g = (case g of None \<Rightarrow> [] | Some s \<Rightarrow> s)"

definition dateString :: "host \<Rightarrow> number option \<Rightarrow> string" where
  "dateString h d = (case d of None \<Rightarrow> [] | Some x \<Rightarrow> NumberToString (renderNumber h) x)"

subsection \<open>The session manager\<close>

text \<open>The constructor (lines 47 to 70).\<close>

definition constructor :: "ISessionConfig option \<Rightarrow> SessionManager" where
  "constructor cfg =
     (let c = (case cfg of
                 None \<Rightarrow> \<lparr>sessionRenewalMs' = None, sessionExpirationMs' = None,
                           cookieDomain' = None, namePrefix' = None\<rparr>
               | Some c' \<Rightarrow> c')
      in \<lparr>automaticSession = \<lparr>id' = None, acquisitionDate = None, renewalDate = None\<rparr>,
          config = \<lparr>sessionRenewalMs = (case sessionRenewalMs' c of
                                           None \<Rightarrow> (\<lambda>_. Fin renewalSpan) | Some f \<Rightarrow> f),
                     sessionExpirationMs = (case sessionExpirationMs' c of
                                              None \<Rightarrow> (\<lambda>_. Fin acquisitionSpan) | Some f \<Rightarrow> f),
                     cookieDomain = cookieDomain' c,
                     namePrefix = namePrefix' c\<rparr>,
          cookieUpdatedTimestamp = None\<rparr>)"

text \<open>\<^verbatim>\<open>_storageNamePrefix\<close> (line 67).\<close>

definition storageNamePrefix :: "SessionConfig \<Rightarrow> string" where
  "storageNamePrefix c =
     (case namePrefix c of
        None \<Rightarrow> cookieNameConst
      | Some f \<Rightarrow> if f () \<noteq> [] then cookieNameConst @ f () else cookieNameConst)"

text \<open>\<^verbatim>\<open>setCookie\<close> (lines 185 to 204).\<close>

definition setCookie ::
  "string option \<Rightarrow> number option \<Rightarrow> number option \<Rightarrow> SessionManager \<times> host \<Rightarrow> SessionManager \<times> host" where
  "setCookie guid acq renewal st =
     (case st of (m, h) \<Rightarrow>
        let acquisitionExpiry = js_add (ToNumber acq) (sessionExpirationMs (config m) ());
            renewalExpiry = js_add (ToNumber renewal) (sessionRenewalMs (config m) ());
            cookie = [guidString guid, dateString h acq, dateString h renewal];
            cookieExpiry = (if js_lt acquisitionExpiry renewalExpiry
                            then TimeClip acquisitionExpiry else TimeClip renewalExpiry);
            cookieDomnain = (case cookieDomain (config m) of None \<Rightarrow> None | Some f \<Rightarrow> Some (f ()));
            h1 = Util_setCookie h (storageNamePrefix (config m))
                   (join CHR ''|'' cookie @ '';expires='' @ toUTCString h cookieExpiry) cookieDomnain
        in case DateTimeUtils_Now h1 of (t, h2) \<Rightarrow> (m\<lparr>cookieUpdatedTimestamp := Some (Fin t)\<rparr>, h2))"

text \<open>\<^verbatim>\<open>setStorage\<close> (lines 206 to 211).\<close>

definition setStorage ::
  "string option \<Rightarrow> number option \<Rightarrow> number option \<Rightarrow> SessionManager \<times> host \<Rightarrow> SessionManager \<times> host" where
  "setStorage guid acq renewal st =
     (case st of (m, h) \<Rightarrow>
        (m, Util_setStorage h (storageNamePrefix (config m))
              (join CHR ''|'' [guidString guid, dateString h acq, dateString h renewal])))"

text \<open>\<^verbatim>\<open>renew\<close> (lines 168 to 183).\<close>

definition renew :: "SessionManager \<times> host \<Rightarrow> SessionManager \<times> host" where
  "renew st =
     (case st of (m, h) \<Rightarrow>
        case DateTimeUtils_Now h of (now, h1) \<Rightarrow>
        case Util_newId h1 of (guid, h2) \<Rightarrow>
          let s = (automaticSession m)\<lparr>id' := Some guid, acquisitionDate := Some (Fin now),
                                      renewalDate := Some (Fin now)\<rparr>
          in case setCookie (id' s) (acquisitionDate s) (renewalDate s)
                    (m\<lparr>automaticSession := s\<rparr>, h2) of (m3, h3) \<Rightarrow>
               if \<not> Util_canUseLocalStorage h3
               then (m3, throwInternal WARNING BrowserDoesNotSupportLocalStorage h3)
               else (m3, h3))"

text \<open>
  The body of the \<^verbatim>\<open>try\<close> block of \<^verbatim>\<open>initializeAutomaticSessionWithData\<close> (lines 142 to
  152): an exception leaves with the session as assigned so far. \<^verbatim>\<open>+new Date(x)\<close> is
  the time value of the date, \<open>TimeClip x\<close>, and \<^verbatim>\<open>v > 0 ? v : 0\<close> is \<open>positiveOrZero\<close>.
\<close>

definition positiveOrZero :: "number \<Rightarrow> number" where
  "positiveOrZero x = (if js_gt x (Fin 0) then x else Fin 0)"

definition parseDates :: "Session \<Rightarrow> string list \<Rightarrow> (exn \<times> Session) + Session" where
  "parseDates s params =
     (case (if length params > 1
            then (case unary_plus (element params 1) of
                    Inl e \<Rightarrow> Inl (e, s)
                  | Inr acq \<Rightarrow> Inr (s\<lparr>acquisitionDate := Some (positiveOrZero (TimeClip acq))\<rparr>))
            else Inr s) of
        Inl x \<Rightarrow> Inl x
      | Inr s1 \<Rightarrow>
          if length params > 2
          then (case unary_plus (element params 2) of
                  Inl e \<Rightarrow> Inl (e, s1)
                | Inr renewal \<Rightarrow> Inr (s1\<lparr>renewalDate := Some (positiveOrZero (TimeClip renewal))\<rparr>))
          else Inr s1)"

text \<open>\<^verbatim>\<open>initializeAutomaticSessionWithData\<close> (lines 134 to 166).\<close>

definition initializeAutomaticSessionWithData ::
  "string \<Rightarrow> SessionManager \<times> host \<Rightarrow> SessionManager \<times> host" where
  "initializeAutomaticSessionWithData sessionData st =
     (case st of (m, h) \<Rightarrow>
        let params = split CHR ''|'' sessionData;
            s0 = (if length params > 0 then (automaticSession m)\<lparr>id' := Some (params ! 0)\<rparr>
                  else automaticSession m)
        in case (case parseDates s0 params of
                   Inl (e, s') \<Rightarrow> (s', throwInternal CRITICAL ErrorParsingAISessionCookie h)
                 | Inr s' \<Rightarrow> (s', h)) of (s1, h1) \<Rightarrow>
             (m\<lparr>automaticSession := s1\<rparr>,
              if renewalDate s1 = Some (Fin 0)
              then throwInternal WARNING SessionRenewalDateIsZero h1 else h1))"

text \<open>\<^verbatim>\<open>initializeAutomaticSession\<close> (lines 108 to 126). A value read from a backend is
  used as a string once it has passed the truthiness test.\<close>

definition stringValue :: "string option \<Rightarrow> string" where
  "stringValue v = (case v of None \<Rightarrow> [] | Some s \<Rightarrow> s)"

definition initializeAutomaticSession :: "SessionManager \<times> host \<Rightarrow> SessionManager \<times> host" where
  "initializeAutomaticSession st =
     (case st of (m, h) \<Rightarrow>
        let cookie = Util_getCookie h (storageNamePrefix (config m));
            st1 = (if \<not> not_string cookie
                   then initializeAutomaticSessionWithData (stringValue cookie) st
                   else
                     let storage = Util_getStorage h (storageNamePrefix (config m))
                     in if \<not> not_string storage
                        then initializeAutomaticSessionWithData (stringValue storage) st
                        else st)
        in if not_string (id' (automaticSession (fst st1))) then renew st1 else st1)"

text \<open>
  \<^verbatim>\<open>update\<close> (lines 72 to 93). Its two locals \<^verbatim>\<open>acquisitionExpired\<close> and
  \<^verbatim>\<open>renewalExpired\<close> (lines 79 and 80) are functions of the manager and of \<^verbatim>\<open>now\<close>.
\<close>

definition acquisitionExpired :: "SessionManager \<Rightarrow> rat \<Rightarrow> bool" where
  "acquisitionExpired m now =
     js_gt (js_sub (Fin now) (ToNumber (acquisitionDate (automaticSession m))))
       (sessionExpirationMs (config m) ())"

definition renewalExpired :: "SessionManager \<Rightarrow> rat \<Rightarrow> bool" where
  "renewalExpired m now =
     js_gt (js_sub (Fin now) (ToNumber (renewalDate (automaticSession m))))
       (sessionRenewalMs (config m) ())"

definition update :: "SessionManager \<times> host \<Rightarrow> SessionManager \<times> host" where
  "update st =
     (case (if not_string (id' (automaticSession (fst st))) then initializeAutomaticSession st
            else st) of (m, h) \<Rightarrow>
        case DateTimeUtils_Now h of (now, h1) \<Rightarrow>
          if acquisitionExpired m now \<or> renewalExpired m now then renew (m, h1)
          else if not_number (cookieUpdatedTimestamp m)
                    \<or> js_gt (js_sub (Fin now) (ToNumber (cookieUpdatedTimestamp m)))
                         (Fin cookieUpdateInterval)
          then
            let m1 = m\<lparr>automaticSession := (automaticSession m)\<lparr>renewalDate := Some (Fin now)\<rparr>\<rparr>
            in setCookie (id' (automaticSession m1)) (acquisitionDate (automaticSession m1))
                 (renewalDate (automaticSession m1)) (m1, h1)
          else (m, h1))"

text \<open>\<^verbatim>\<open>backup\<close> (lines 100 to 102).\<close>

definition backup :: "SessionManager \<times> host \<Rightarrow> SessionManager \<times> host" where
  "backup st =
     (case st of (m, h) \<Rightarrow>
        setStorage (id' (automaticSession m)) (acquisitionDate (automaticSession m))
          (renewalDate (automaticSession m)) st)"

text \<open>The invariant of section 3 of the specification: the id is set exactly when both
  dates are.\<close>

definition sessionInvariant :: "Session \<Rightarrow> bool" where
  "sessionInvariant s =
     ((id' s \<noteq> None) = (acquisitionDate s \<noteq> None \<and> renewalDate s \<noteq> None))"

text \<open>The state that \<^verbatim>\<open>renew\<close> and a parse of three fields leave: all three fields set.\<close>

definition allSet :: "Session \<Rightarrow> bool" where
  "allSet s = (id' s \<noteq> None \<and> acquisitionDate s \<noteq> None \<and> renewalDate s \<noteq> None)"

subsection \<open>Example hosts\<close>

text \<open>
  A host for concrete runs: empty local storage, no cookie written yet, an empty log, ids
  \<^verbatim>\<open>id0\<close>, \<^verbatim>\<open>id1\<close>, ... and stand-ins for the two renderings. The cookie jar and the
  clock readings are arguments.
\<close>

definition exampleHost :: "(string \<rightharpoonup> string) \<Rightarrow> (nat \<Rightarrow> rat) \<Rightarrow> host" where
  "exampleHost jar readings =
     \<lparr>cookies = jar, storage = Map.empty, cookieWrites = [], clock = readings, ticks = 0,
      idgen = (\<lambda>k. ''id'' @ digits_of k), minted = 0, canUseLocalStorage = True,
      logged = [], renderNumber = (\<lambda>q. ''?''), utcFormat = (\<lambda>t. digits_of (nat t))\<rparr>"

text \<open>A host without persisted state whose clock stands at the epoch for four readings
  and reads 1000 afterwards.\<close>

definition epochHost :: host where
  "epochHost = exampleHost Map.empty (\<lambda>k. if k < 4 then 0 else 1000)"

text \<open>A manager holding a given session under the default configuration.\<close>

definition managerWith :: "Session \<Rightarrow> number option \<Rightarrow> SessionManager" where
  "managerWith s ts = (constructor None)\<lparr>automaticSession := s, cookieUpdatedTimestamp := ts\<rparr>"

section \<open>Properties\<close>

declare digits_of.simps [simp del]

declare bitLength.simps [simp del]

subsection \<open>Integers below \<open>2^53\<close> are doubles\<close>

lemma bitLength_le: "n < 2 ^ w \<Longrightarrow> bitLength n \<le> w"
proof (induction n arbitrary: w rule: bitLength.induct)
  case (1 n)
  show ?case
  proof (cases "n \<le> 0")
    case True
    then show ?thesis by (simp add: bitLength.simps)
  next
    case False
    with 1(2) obtain v where w: "w = Suc v" by (cases w) auto
    with 1(2) have "n div 2 < 2 ^ v" by auto
    with 1(1)[OF False] have "bitLength (n div 2) \<le> v" by simp
    with False w show ?thesis by (simp add: bitLength.simps[of n])
  qed
qed

lemma bitLength_pos: "0 < n \<Longrightarrow> 0 < bitLength n"
  by (simp add: bitLength.simps[of n])

lemma roundHalfEven_int: "roundHalfEven (of_int z) = z"
  by (simp add: roundHalfEven_def)

lemma round64_pos_int:
  assumes "0 < k" and "k < 2 ^ 53"
  shows "round64 (of_int k) = Fin (of_int k)"
proof -
  define b where "b = bitLength k"
  have b53: "b \<le> 53" unfolding b_def using assms(2) by (rule bitLength_le)
  have b0: "0 < b" unfolding b_def using assms by (simp add: bitLength_pos)
  have bin: "binade \<bar>of_int k\<bar> = int b - 1"
    using assms by (simp add: binade_def b_def)
  define j where "j = 53 - b"
  have e: "max (int b - 1) (- 1022) - 52 = - int j"
    using b53 b0 by (simp add: j_def)
  have u: "twoPow (- int j) = 1 / 2 ^ j"
    by (cases "j = 0") (simp_all add: twoPow_def)
  have q: "\<bar>of_int k :: rat\<bar> / (1 / 2 ^ j) = of_int (k * 2 ^ j)"
    using assms by simp
  have r: "(of_int (k * 2 ^ j) :: rat) * (1 / 2 ^ j) = of_int k"
    by simp
  have "(of_int k :: rat) < of_int (2 ^ 53)"
    using assms by (simp only: of_int_less_iff)
  also have "\<dots> \<le> 2 ^ 1024" by simp
  finally have big: "\<not> twoPow 1024 \<le> (of_int k :: rat)"
    by (simp add: twoPow_def)
  have nz: "(of_int k :: rat) \<noteq> 0" "(0::rat) < of_int k" using assms by simp_all
  show ?thesis
    unfolding round64_def Let_def bin e u q roundHalfEven_int r
    using nz big by simp
qed

lemma round64_neg:
  "round64 (- q) =
     (case round64 q of Fin r \<Rightarrow> Fin (- r) | PInf \<Rightarrow> NInf | NInf \<Rightarrow> PInf | NaN \<Rightarrow> NaN)"
  by (cases "q = 0"; cases "0 < q") (auto simp: round64_def Let_def)

lemma round64_int:
  assumes "\<bar>k\<bar> < 2 ^ 53"
  shows "round64 (of_int k) = Fin (of_int k)"
proof -
  consider "k = 0" | "0 < k" | "k < 0" by linarith
  then show ?thesis
  proof cases
    case 1
    then show ?thesis by (simp add: round64_def)
  next
    case 2
    with assms show ?thesis by (simp add: round64_pos_int)
  next
    case 3
    with assms have "round64 (of_int (- k)) = Fin (of_int (- k))"
      by (intro round64_pos_int) simp_all
    then show ?thesis using round64_neg[of "of_int (- k)"] by simp
  qed
qed

lemma round64_numeral [simp]:
  "numeral w < (2::int) ^ 53 \<Longrightarrow> round64 (numeral w) = Fin (numeral w)"
  "numeral w < (2::int) ^ 53 \<Longrightarrow> round64 (- numeral w) = Fin (- numeral w)"
  "round64 0 = Fin 0" "round64 1 = Fin 1"
  using round64_int[of "numeral w"] round64_int[of "- numeral w"] round64_int[of 0]
    round64_int[of 1]
  by simp_all

lemma representable_int: "\<bar>k\<bar> < 2 ^ 53 \<Longrightarrow> representable (of_int k)"
  by (simp add: representable_def round64_int)

lemma js_sub_zero [simp]: "js_sub (Fin a) (Fin 0) = Fin a"
  by (simp add: js_sub_def)

subsection \<open>Effects of the writers and of renewal\<close>

lemma toUTCString_frame [simp]:
  "toUTCString (h\<lparr>ticks := a\<rparr>) = toUTCString h"
  "toUTCString (h\<lparr>minted := b\<rparr>) = toUTCString h"
  "toUTCString (h\<lparr>logged := c\<rparr>) = toUTCString h"
  by (auto simp: toUTCString_def fun_eq_iff split: number.splits)

lemma dateString_frame [simp]:
  "dateString (h\<lparr>ticks := a\<rparr>) = dateString h"
  "dateString (h\<lparr>minted := b\<rparr>) = dateString h"
  "dateString (h\<lparr>logged := c\<rparr>) = dateString h"
  by (auto simp: dateString_def fun_eq_iff split: option.splits)

lemma setCookie_eq:
  "setCookie g a r (m, h) =
     (m\<lparr>cookieUpdatedTimestamp := Some (Fin (clock h (ticks h)))\<rparr>,
      h\<lparr>cookieWrites := cookieWrites h @
           [(storageNamePrefix (config m),
             join CHR ''|'' [guidString g, dateString h a, dateString h r] @ '';expires='' @
               toUTCString h
                 (if js_lt (js_add (ToNumber a) (sessionExpirationMs (config m) ()))
                        (js_add (ToNumber r) (sessionRenewalMs (config m) ()))
                  then TimeClip (js_add (ToNumber a) (sessionExpirationMs (config m) ()))
                  else TimeClip (js_add (ToNumber r) (sessionRenewalMs (config m) ()))),
             case cookieDomain (config m) of None \<Rightarrow> None | Some f \<Rightarrow> Some (f ()))],
         ticks := Suc (ticks h)\<rparr>)"
  by (simp add: setCookie_def Util_setCookie_def DateTimeUtils_Now_def Let_def toUTCString_def
      dateString_def)

lemma renew_session:
  "automaticSession (fst (renew (m, h))) =
     \<lparr>id' = Some (idgen h (minted h)), acquisitionDate = Some (Fin (clock h (ticks h))),
      renewalDate = Some (Fin (clock h (ticks h)))\<rparr>"
  by (simp add: renew_def setCookie_eq DateTimeUtils_Now_def Util_newId_def Let_def
      Util_canUseLocalStorage_def throwInternal_def split: prod.splits)

lemma renew_idgen: "idgen (snd (renew (m, h))) = idgen h"
  by (simp add: renew_def setCookie_eq DateTimeUtils_Now_def Util_newId_def Let_def
      Util_canUseLocalStorage_def throwInternal_def split: prod.splits)

lemma renew_effects:
  "cookieWrites (snd (renew (m, h))) = cookieWrites h @
      [(storageNamePrefix (config m),
        join CHR ''|'' [idgen h (minted h), dateString h (Some (Fin (clock h (ticks h)))),
                       dateString h (Some (Fin (clock h (ticks h))))] @ '';expires='' @
          toUTCString h
            (if js_lt (js_add (Fin (clock h (ticks h))) (sessionExpirationMs (config m) ()))
                   (js_add (Fin (clock h (ticks h))) (sessionRenewalMs (config m) ()))
             then TimeClip (js_add (Fin (clock h (ticks h))) (sessionExpirationMs (config m) ()))
             else TimeClip (js_add (Fin (clock h (ticks h))) (sessionRenewalMs (config m) ()))),
        case cookieDomain (config m) of None \<Rightarrow> None | Some f \<Rightarrow> Some (f ()))]"
  "minted (snd (renew (m, h))) = Suc (minted h)"
  "config (fst (renew (m, h))) = config m"
  "cookieUpdatedTimestamp (fst (renew (m, h))) = Some (Fin (clock h (Suc (ticks h))))"
  by (simp_all add: renew_def setCookie_eq DateTimeUtils_Now_def Util_newId_def Let_def
      Util_canUseLocalStorage_def throwInternal_def guidString_def split: prod.splits)

lemma parse_host: "\<exists>l. snd (initializeAutomaticSessionWithData d (m, h)) = h\<lparr>logged := l\<rparr>"
  by (auto simp: initializeAutomaticSessionWithData_def Let_def throwInternal_def
      split: prod.splits sum.splits intro: exI[of _ "logged h"])

lemma parse_idgen: "idgen (snd (initializeAutomaticSessionWithData d st)) = idgen (snd st)"
  using parse_host[of d "fst st" "snd st"] by auto

lemma update_after_init:
  assumes "not_string (id' (automaticSession m))"
    and "initializeAutomaticSession (m, h) = (m1, h1)"
    and "\<not> not_string (id' (automaticSession m1))"
  shows "update (m, h) = update (m1, h1)"
  using assms by (simp add: update_def)

subsection \<open>Rounding where the exact result is not a double\<close>

lemmas s2n_defs = StringToNumber_def trim_def is_ws_def StrDecimalLiteral_def
  StrUnsignedDecimalLiteral_def not_exp_def not_dot_def is_digit_def MV_def digit_val_def
  DecimalDigits_def SignedInteger_def pow10_def radix_literal_def is_radix_digit_def
  radix_val_def

lemma bitLength_numeral:
  "bitLength (numeral w) = Suc (bitLength (numeral w div 2))"
  "bitLength 0 = 0" "bitLength 1 = 1"
  by (simp_all add: bitLength.simps[of "numeral w"] bitLength.simps[of 0] bitLength.simps[of 1])

lemma floor_rat_numeral:
  "\<lfloor>(numeral a :: rat) / numeral b\<rfloor> = numeral a div numeral b"
  using floor_Fract[of "numeral a" "numeral b"] by (simp add: Fract_of_int_quotient)

lemma ceiling_rat_numeral:
  "\<lceil>(numeral a :: rat) / numeral b\<rceil> = - (- numeral a div numeral b)"
  using floor_Fract[of "- numeral a" "numeral b"]
  by (simp add: ceiling_def Fract_of_int_quotient)

lemmas round64_eval = round64_def binade_def twoPow_def roundHalfEven_def Let_def
  bitLength_numeral floor_rat_numeral ceiling_rat_numeral

text \<open>Above \<open>2^53\<close> the doubles are the even integers, and a tie goes to the even
  significand.\<close>

lemma sum_rounds_to_even:
  "js_add (Fin 9007199254740992) (Fin 1) = Fin 9007199254740992"
  "js_add (Fin 9007199254740992) (Fin 3) = Fin 9007199254740996"
  "js_sub (Fin 9007199254740992) (Fin (1 / 2)) = Fin 9007199254740992"
  by (simp_all add: js_sub_def round64_eval)

text \<open>The doubles that \<^verbatim>\<open>1800000.1\<close> and \<^verbatim>\<open>0.1\<close> denote, and their difference, which
  is the double 1800000.\<close>

lemma fractional_difference_rounds:
  "StringToNumber ''1800000.1'' = Fin (3865470781148365 / 2147483648)"
  "StringToNumber ''0.1'' = Fin (3602879701896397 / 36028797018963968)"
  "js_sub (Fin (3865470781148365 / 2147483648)) (Fin (3602879701896397 / 36028797018963968))
     = Fin 1800000"
  by (simp_all add: s2n_defs js_sub_def round64_eval)

text \<open>A numeric string denotes the double nearest to its decimal value.\<close>

lemma parsing_rounds:
  "StringToNumber ''8640000000000000.4'' = Fin 8640000000000000"
  "StringToNumber ''9007199254740993'' = Fin 9007199254740992"
  "StringToNumber ''0.99999999999999999999'' = Fin 1"
  by (simp_all add: s2n_defs round64_eval)

subsection \<open>Parsing a persisted payload\<close>

text \<open>The \<^verbatim>\<open>try\<close> block completes normally on every array of strings.\<close>

lemma parseDates_eq:
  "parseDates s params =
     Inr (s\<lparr>acquisitionDate :=
               (if length params > 1
                then Some (positiveOrZero (TimeClip (StringToNumber (params ! 1))))
                else acquisitionDate s),
            renewalDate :=
               (if length params > 2
                then Some (positiveOrZero (TimeClip (StringToNumber (params ! 2))))
                else renewalDate s)\<rparr>)"
  by (simp add: parseDates_def element_def)

lemma split_nonempty: "split d s \<noteq> []"
  by (induction s) (auto split: list.splits)

lemma parse_eq:
  "initializeAutomaticSessionWithData d (m, h) =
     (let params = split CHR ''|'' d;
          s1 = (automaticSession m)\<lparr>id' := Some (params ! 0),
                 acquisitionDate :=
                   (if length params > 1
                    then Some (positiveOrZero (TimeClip (StringToNumber (params ! 1))))
                    else acquisitionDate (automaticSession m)),
                 renewalDate :=
                   (if length params > 2
                    then Some (positiveOrZero (TimeClip (StringToNumber (params ! 2))))
                    else renewalDate (automaticSession m))\<rparr>
      in (m\<lparr>automaticSession := s1\<rparr>,
          if renewalDate s1 = Some (Fin 0)
          then h\<lparr>logged := logged h @ [(WARNING, SessionRenewalDateIsZero)]\<rparr> else h))"
  using split_nonempty[of "CHR ''|''" d]
  by (simp add: initializeAutomaticSessionWithData_def parseDates_eq Let_def throwInternal_def)

lemma split_malformed:
  "split CHR ''|'' ''abc|notanumber|2000'' = [''abc'', ''notanumber'', ''2000'']"
  by simp

lemma num_notanumber: "StringToNumber ''notanumber'' = NaN"
  by (simp add: s2n_defs)

lemma num_2000: "StringToNumber ''2000'' = Fin 2000"
  by (simp add: s2n_defs)

lemma parse_malformed:
  "initializeAutomaticSessionWithData ''abc|notanumber|2000'' (m, h) =
     (m\<lparr>automaticSession := (automaticSession m)\<lparr>id' := Some ''abc'',
          acquisitionDate := Some (Fin 0), renewalDate := Some (Fin 2000)\<rparr>\<rparr>, h)"
  unfolding parse_eq split_malformed
  by (simp add: num_notanumber num_2000 positiveOrZero_def js_gt_def maxTime_def ToInteger_def)

lemma parse_minted:
  "minted (snd (initializeAutomaticSessionWithData d st)) = minted (snd st)"
  using parse_host[of d "fst st" "snd st"] by auto

lemma parse_id_set:
  "id' (automaticSession (fst (initializeAutomaticSessionWithData d (m, h)))) =
     Some (split CHR ''|'' d ! 0)"
  by (simp add: parse_eq Let_def)

subsection \<open>The steps of \<^verbatim>\<open>update\<close>\<close>

lemma update_unfold:
  assumes "(if not_string (id' (automaticSession m)) then initializeAutomaticSession (m, h)
            else (m, h)) = (m1, h1)"
  shows "update (m, h) =
     (if acquisitionExpired m1 (clock h1 (ticks h1)) \<or> renewalExpired m1 (clock h1 (ticks h1))
      then renew (m1, h1\<lparr>ticks := Suc (ticks h1)\<rparr>)
      else if not_number (cookieUpdatedTimestamp m1)
                \<or> js_gt (js_sub (Fin (clock h1 (ticks h1))) (ToNumber (cookieUpdatedTimestamp m1)))
                     (Fin cookieUpdateInterval)
      then setCookie (id' (automaticSession m1)) (acquisitionDate (automaticSession m1))
             (Some (Fin (clock h1 (ticks h1))))
             (m1\<lparr>automaticSession :=
                   (automaticSession m1)\<lparr>renewalDate := Some (Fin (clock h1 (ticks h1)))\<rparr>\<rparr>,
              h1\<lparr>ticks := Suc (ticks h1)\<rparr>)
      else (m1, h1\<lparr>ticks := Suc (ticks h1)\<rparr>))"
  using assms by (simp add: update_def DateTimeUtils_Now_def Let_def)

lemma update_initialised:
  assumes "\<not> not_string (id' (automaticSession m))"
  shows "update (m, h) =
     (if acquisitionExpired m (clock h (ticks h)) \<or> renewalExpired m (clock h (ticks h))
      then renew (m, h\<lparr>ticks := Suc (ticks h)\<rparr>)
      else if not_number (cookieUpdatedTimestamp m)
                \<or> js_gt (js_sub (Fin (clock h (ticks h))) (ToNumber (cookieUpdatedTimestamp m)))
                     (Fin cookieUpdateInterval)
      then setCookie (id' (automaticSession m)) (acquisitionDate (automaticSession m))
             (Some (Fin (clock h (ticks h))))
             (m\<lparr>automaticSession := (automaticSession m)\<lparr>renewalDate := Some (Fin (clock h (ticks h)))\<rparr>\<rparr>,
              h\<lparr>ticks := Suc (ticks h)\<rparr>)
      else (m, h\<lparr>ticks := Suc (ticks h)\<rparr>))"
  using assms by (intro update_unfold) simp

lemma renew_trace:
  "idgen (snd (renew (m, h))) = idgen h"
  "minted (snd (renew (m, h))) = Suc (minted h)"
  "id' (automaticSession (fst (renew (m, h)))) = Some (idgen h (minted h))"
  by (simp_all add: renew_idgen renew_effects renew_session)

lemma setCookie_trace:
  "idgen (snd (setCookie g a r (m, h))) = idgen h"
  "minted (snd (setCookie g a r (m, h))) = minted h"
  "automaticSession (fst (setCookie g a r (m, h))) = automaticSession m"
  by (simp_all add: setCookie_eq)

lemma init_trace:
  "idgen (snd (initializeAutomaticSession (m, h))) = idgen h
   \<and> (minted (snd (initializeAutomaticSession (m, h))) = minted h
         \<and> \<not> not_string (id' (automaticSession (fst (initializeAutomaticSession (m, h)))))
       \<or> minted (snd (initializeAutomaticSession (m, h))) = Suc (minted h)
         \<and> id' (automaticSession (fst (initializeAutomaticSession (m, h))))
             = Some (idgen h (minted h)))"
proof -
  define st1 where "st1 =
     (if \<not> not_string (Util_getCookie h (storageNamePrefix (config m)))
      then initializeAutomaticSessionWithData
             (stringValue (Util_getCookie h (storageNamePrefix (config m)))) (m, h)
      else if \<not> not_string (Util_getStorage h (storageNamePrefix (config m)))
           then initializeAutomaticSessionWithData
                  (stringValue (Util_getStorage h (storageNamePrefix (config m)))) (m, h)
           else (m, h))"
  have i: "initializeAutomaticSession (m, h) =
        (if not_string (id' (automaticSession (fst st1))) then renew st1 else st1)"
    by (simp add: initializeAutomaticSession_def st1_def Let_def)
  have g: "idgen (snd st1) = idgen h" "minted (snd st1) = minted h"
    by (simp_all add: st1_def parse_idgen parse_minted)
  obtain m1 h1 where s1: "st1 = (m1, h1)" by (cases st1)
  with g have e: "idgen h1 = idgen h" "minted h1 = minted h" by simp_all
  show ?thesis
    unfolding i s1 by (simp add: renew_trace e)
qed

lemma update_trace:
  "idgen (snd (update (m, h))) = idgen h
   \<and> (minted (snd (update (m, h))) = minted h
         \<and> \<not> not_string (id' (automaticSession (fst (update (m, h)))))
       \<or> minted h < minted (snd (update (m, h)))
         \<and> id' (automaticSession (fst (update (m, h))))
             = Some (idgen h (minted (snd (update (m, h))) - 1)))"
proof -
  obtain m1 h1 where s1: "(if not_string (id' (automaticSession m))
       then initializeAutomaticSession (m, h) else (m, h)) = (m1, h1)"
    by (cases "if not_string (id' (automaticSession m))
       then initializeAutomaticSession (m, h) else (m, h)")
  have p: "idgen h1 = idgen h
     \<and> (minted h1 = minted h \<and> \<not> not_string (id' (automaticSession m1))
         \<or> minted h1 = Suc (minted h) \<and> id' (automaticSession m1) = Some (idgen h (minted h)))"
  proof (cases "not_string (id' (automaticSession m))")
    case True
    with s1 init_trace[of m h] show ?thesis by simp
  next
    case False
    with s1 show ?thesis by auto
  qed
  show ?thesis
    unfolding update_unfold[OF s1] using p
    by (auto simp: renew_trace setCookie_trace)
qed

subsection \<open>The id after \<^verbatim>\<open>update\<close>\<close>

text \<open>
  Claim C1, as stated, fails: the id that \<^verbatim>\<open>renew\<close> stores is whatever \<^verbatim>\<open>Util.newId\<close>
  returns, and nothing in \<^verbatim>\<open>update\<close> looks at it again. With a generator that returns
  the empty string, a fresh manager ends \<^verbatim>\<open>update\<close> with the id \<^verbatim>\<open>""\<close>.
\<close>

theorem update_id_empty_counterexample:
  "id' (automaticSession (fst (update (constructor None,
       (exampleHost Map.empty (\<lambda>k. 5))\<lparr>idgen := (\<lambda>k. [])\<rparr>)))) = Some []"
  by (simp add: update_def initializeAutomaticSession_def exampleHost_def constructor_def
      storageNamePrefix_def cookieNameConst_def Util_getCookie_def Util_getStorage_def
      renew_def setCookie_eq DateTimeUtils_Now_def Util_newId_def Util_canUseLocalStorage_def
      Let_def acquisitionExpired_def renewalExpired_def js_gt_def js_sub_def renewalSpan_def
      acquisitionSpan_def)


text \<open>
  Claim C1, amended. For every configuration, every in-memory session and every state of
  the cookie and storage backends, the session id is a string once \<^verbatim>\<open>update\<close> has
  returned, and it is the empty string exactly when \<^verbatim>\<open>update\<close> minted an id during the
  call and the last id that \<^verbatim>\<open>Util.newId\<close> returned was empty.
\<close>

theorem update_id_set:
  "\<exists>g. id' (automaticSession (fst (update (m, h)))) = Some g
     \<and> (g = []) = (minted h < minted (snd (update (m, h)))
                   \<and> idgen h (minted (snd (update (m, h))) - 1) = [])"
proof -
  from update_trace[of m h] consider
    (kept) "minted (snd (update (m, h))) = minted h"
      "\<not> not_string (id' (automaticSession (fst (update (m, h)))))"
    | (minted) "minted h < minted (snd (update (m, h)))"
      "id' (automaticSession (fst (update (m, h))))
         = Some (idgen h (minted (snd (update (m, h))) - 1))"
    by blast
  then show ?thesis
  proof cases
    case kept
    then show ?thesis
      by (cases "id' (automaticSession (fst (update (m, h))))") auto
  next
    case minted
    then show ?thesis by auto
  qed
qed

theorem update_id_set_witness:
  "\<exists>g. id' (automaticSession (fst (update (constructor None, exampleHost Map.empty (\<lambda>k. 5)))))
          = Some g \<and> g \<noteq> []"
proof -
  let ?h = "exampleHost Map.empty (\<lambda>k. 5)"
  have i: "idgen ?h = (\<lambda>k. ''id'' @ digits_of k)"
    by (simp add: exampleHost_def)
  from update_id_set[of "constructor None" ?h]
  obtain g where g: "id' (automaticSession (fst (update (constructor None, ?h)))) = Some g"
    and e: "(g = []) = (minted ?h < minted (snd (update (constructor None, ?h)))
                   \<and> idgen ?h (minted (snd (update (constructor None, ?h))) - 1) = [])"
    by blast
  from e have "g \<noteq> []" by (simp add: i)
  with g show ?thesis by blast
qed

subsection \<open>The backup\<close>

lemma default_config:
  "sessionRenewalMs (config (constructor None)) () = Fin renewalSpan"
  "sessionExpirationMs (config (constructor None)) () = Fin acquisitionSpan"
  "storageNamePrefix (config (constructor None)) = ''ai_session''"
  "cookieDomain (config (constructor None)) = None"
  "config (managerWith s ts) = config (constructor None)"
  "automaticSession (managerWith s ts) = s"
  "cookieUpdatedTimestamp (managerWith s ts) = ts"
  "automaticSession (constructor None) = \<lparr>id' = None, acquisitionDate = None, renewalDate = None\<rparr>"
  "cookieUpdatedTimestamp (constructor None) = None"
  by (simp_all add: constructor_def managerWith_def storageNamePrefix_def cookieNameConst_def)

lemma backup_eq:
  "backup (m, h) =
     (m, h\<lparr>storage := (storage h)(storageNamePrefix (config m) \<mapsto>
            join CHR ''|'' [guidString (id' (automaticSession m)),
                           dateString h (acquisitionDate (automaticSession m)),
                           dateString h (renewalDate (automaticSession m))])\<rparr>)"
  by (simp add: backup_def setStorage_def Util_setStorage_def)

lemma NumberToString_int:
  "0 \<le> a \<Longrightarrow> a < 2 ^ 53 \<Longrightarrow> NumberToString render (Fin (of_int a)) = digits_of (nat a)"
proof -
  assume a: "0 \<le> a" "a < 2 ^ 53"
  then have "\<bar>(of_int a :: rat)\<bar> < of_int (2 ^ 53)"
    by (simp only: of_int_abs[symmetric] of_int_less_iff)
  then have "\<bar>(of_int a :: rat)\<bar> < 2 ^ 53" by simp
  with a show ?thesis by (simp add: NumberToString_def)
qed

text \<open>
  Claim C7. For every in-memory session, expired or uninitialised as it may be,
  \<^verbatim>\<open>backup\<close> returns the manager as it was (same session fields, same
  \<^verbatim>\<open>cookieUpdatedTimestamp\<close>) and changes the host in one place only: under the storage
  key it stores the id, the acquisition date and the renewal date joined by \<^verbatim>\<open>|\<close>, an
  unset field being empty and a date printed as \<^verbatim>\<open>Number::toString\<close> prints it, which
  for whole numbers of milliseconds below \<open>2^53\<close> is their decimal digits. No cookie is
  written.
\<close>

theorem backup_frame:
  "fst (backup (m, h)) = m
   \<and> snd (backup (m, h)) = h\<lparr>storage := (storage h)(storageNamePrefix (config m) \<mapsto>
        (case id' (automaticSession m) of None \<Rightarrow> [] | Some g \<Rightarrow> g) @ ''|'' @
        (case acquisitionDate (automaticSession m) of
           None \<Rightarrow> [] | Some x \<Rightarrow> NumberToString (renderNumber h) x) @ ''|'' @
        (case renewalDate (automaticSession m) of
           None \<Rightarrow> [] | Some x \<Rightarrow> NumberToString (renderNumber h) x))\<rparr>
   \<and> (id' (automaticSession m) = Some g
        \<and> acquisitionDate (automaticSession m) = Some (Fin (of_int a)) \<and> 0 \<le> a \<and> a < 2 ^ 53
        \<and> renewalDate (automaticSession m) = Some (Fin (of_int r)) \<and> 0 \<le> r \<and> r < 2 ^ 53
       \<longrightarrow> storage (snd (backup (m, h))) (storageNamePrefix (config m))
             = Some (g @ ''|'' @ digits_of (nat a) @ ''|'' @ digits_of (nat r)))"
  by (auto simp: backup_eq guidString_def dateString_def NumberToString_int)

theorem backup_frame_witness:
  "backup (managerWith \<lparr>id' = Some ''abc'', acquisitionDate = Some (Fin 1000),
        renewalDate = Some (Fin 2000)\<rparr> (Some (Fin 1500)), exampleHost Map.empty (\<lambda>k. 90000000))
     = (managerWith \<lparr>id' = Some ''abc'', acquisitionDate = Some (Fin 1000),
        renewalDate = Some (Fin 2000)\<rparr> (Some (Fin 1500)),
        (exampleHost Map.empty (\<lambda>k. 90000000))\<lparr>storage := [''ai_session'' \<mapsto> ''abc|1000|2000'']\<rparr>)
   \<and> storage (snd (backup (constructor None, exampleHost Map.empty (\<lambda>k. 0)))) ''ai_session''
       = Some ''||''"
proof -
  let ?m = "managerWith \<lparr>id' = Some ''abc'', acquisitionDate = Some (Fin 1000),
        renewalDate = Some (Fin 2000)\<rparr> (Some (Fin 1500))"
  let ?h = "exampleHost Map.empty (\<lambda>k. 90000000)"
  have d: "digits_of 1000 = ''1000''" "digits_of 2000 = ''2000''"
    by (simp_all add: digits_of.simps digit_char_def)
  have n: "NumberToString f (Fin 1000) = ''1000''" "NumberToString f (Fin 2000) = ''2000''" for f
    using NumberToString_int[of 1000 f] NumberToString_int[of 2000 f] d by simp_all
  have s: "storage ?h = Map.empty" by (simp add: exampleHost_def)
  from backup_frame[of ?m ?h "''abc''" 1000 2000]
  have 1: "fst (backup (?m, ?h)) = ?m"
    and 2: "snd (backup (?m, ?h)) = ?h\<lparr>storage := [''ai_session'' \<mapsto> ''abc|1000|2000'']\<rparr>"
    by (simp_all add: default_config d s n)
  from backup_frame[of "constructor None" "exampleHost Map.empty (\<lambda>k. 0)"]
  have 3: "storage (snd (backup (constructor None, exampleHost Map.empty (\<lambda>k. 0)))) ''ai_session''
       = Some ''||''"
    by (simp add: default_config)
  from 1 2 3 show ?thesis by (simp add: prod_eq_iff)
qed


subsection \<open>Decimal digits and the numeric string grammar\<close>

lemma digit_char_props:
  assumes "d < 10"
  shows "is_digit (digit_char d)" and "digit_val (digit_char d) = d"
proof -
  from assms have "d \<in> {0, 1, 2, 3, 4, 5, 6, 7, 8, 9}" by auto
  then show "is_digit (digit_char d)" and "digit_val (digit_char d) = d"
    by (auto simp: digit_char_def is_digit_def digit_val_def)
qed

lemma MV_snoc: "MV (ds @ [c]) = 10 * MV ds + digit_val c"
  by (simp add: MV_def)

lemma digits_of_props:
  "digits_of n \<noteq> [] \<and> list_all is_digit (digits_of n) \<and> MV (digits_of n) = n"
proof (induction n rule: digits_of.induct)
  case (1 n)
  show ?case
  proof (cases "n < 10")
    case True
    then show ?thesis
      by (simp add: digits_of.simps[of n] digit_char_props MV_def)
  next
    case False
    have m: "n mod 10 < 10" by simp
    from False 1 have ih: "digits_of (n div 10) \<noteq> []"
      "list_all is_digit (digits_of (n div 10))" "MV (digits_of (n div 10)) = n div 10"
      by simp_all
    have e: "digits_of n = digits_of (n div 10) @ [digit_char (n mod 10)]"
      using False by (subst digits_of.simps) simp
    show ?thesis
      unfolding e using ih by (simp add: MV_snoc digit_char_props[OF m])
  qed
qed

lemma is_digit_facts:
  assumes "is_digit c"
  shows "\<not> is_ws c" "not_exp c" "not_dot c" "c \<noteq> CHR ''+''" "c \<noteq> CHR ''-''"
    "c \<noteq> CHR ''|''" "c \<noteq> CHR ''x''" "c \<noteq> CHR ''X''" "c \<noteq> CHR ''o''" "c \<noteq> CHR ''O''"
    "c \<noteq> CHR ''b''" "c \<noteq> CHR ''B''" "c \<noteq> CHR ''I''"
  using assms by (auto simp: is_digit_def is_ws_def not_exp_def not_dot_def)

lemma trim_digits:
  assumes "ds \<noteq> []" and "list_all is_digit ds"
  shows "trim ds = ds"
proof -
  from assms have "\<not> is_ws (hd ds)" by (cases ds) (auto simp: is_digit_facts)
  with assms have a: "dropWhile is_ws ds = ds" by (cases ds) auto
  from assms have "\<not> is_ws (last ds)"
    by (metis is_digit_facts(1) last_in_set list_all_iff)
  with assms have "dropWhile is_ws (rev ds) = rev ds"
    by (cases "rev ds") (auto simp: last_rev hd_rev)
  with a show ?thesis by (simp add: trim_def)
qed

lemma unsigned_digits:
  assumes "ds \<noteq> []" and "list_all is_digit ds"
  shows "StrUnsignedDecimalLiteral ds = round64 (of_nat (MV ds))"
proof -
  have i: "ds \<noteq> ''Infinity''"
    using assms by (auto simp: is_digit_def)
  have e: "takeWhile not_exp ds = ds" "dropWhile not_exp ds = []"
    using assms by (auto simp: list_all_iff is_digit_facts)
  have d: "takeWhile not_dot ds = ds" "dropWhile not_dot ds = []"
    using assms by (auto simp: list_all_iff is_digit_facts)
  show ?thesis
    using assms i by (simp add: StrUnsignedDecimalLiteral_def e d Let_def pow10_def MV_def)
qed

lemma StringToNumber_digits:
  assumes "ds \<noteq> []" and "list_all is_digit ds"
  shows "StringToNumber ds = round64 (of_nat (MV ds))"
proof -
  obtain c cs where ds: "ds = c # cs" using assms by (cases ds) auto
  with assms have c: "is_digit c" by simp
  have s: "StrDecimalLiteral ds = round64 (of_nat (MV ds))"
    using unsigned_digits[OF assms] is_digit_facts[OF c] by (simp add: StrDecimalLiteral_def ds)
  show ?thesis
  proof (cases cs)
    case Nil
    with s show ?thesis
      unfolding StringToNumber_def trim_digits[OF assms] Let_def by (simp add: ds)
  next
    case (Cons b bs)
    with assms ds have "is_digit b" by simp
    from is_digit_facts[OF this] s Cons show ?thesis
      unfolding StringToNumber_def trim_digits[OF assms] Let_def by (simp add: ds)
  qed
qed

lemma StringToNumber_digits_of:
  assumes "n < 2 ^ 53"
  shows "StringToNumber (digits_of n) = Fin (of_nat n)"
proof -
  have "\<bar>int n\<bar> < 2 ^ 53" using assms by (simp add: of_nat_less_iff[of n "2 ^ 53", where ?'a = int, simplified])
  then have "round64 (of_int (int n)) = Fin (of_int (int n))" by (rule round64_int)
  then show ?thesis
    using StringToNumber_digits[of "digits_of n"] digits_of_props[of n] by simp
qed

lemma bar_notin_digits_of: "CHR ''|'' \<notin> set (digits_of n)"
  using digits_of_props[of n] is_digit_facts(6) by (auto simp: list_all_iff)

lemma split_single: "d \<notin> set x \<Longrightarrow> split d x = [x]"
  by (induction x) auto

lemma split_append: "d \<notin> set x \<Longrightarrow> split d (x @ d # rest) = x # split d rest"
  by (induction x) auto

lemma split_triple:
  assumes "d \<notin> set x" "d \<notin> set y" "d \<notin> set z"
  shows "split d (join d [x, y, z]) = [x, y, z]"
  using assms by (simp add: split_append split_single)

lemma Date_int:
  assumes "0 < a" and "a \<le> 8640000000000000"
  shows "positiveOrZero (TimeClip (Fin (of_int a))) = Fin (of_int a)"
proof -
  have "\<bar>(of_int a :: rat)\<bar> \<le> of_int 8640000000000000"
    using assms by (simp only: of_int_abs[symmetric] of_int_le_iff)
  then have "\<not> \<bar>(of_int a :: rat)\<bar> > maxTime" by (simp add: maxTime_def)
  then show ?thesis using assms by (simp add: positiveOrZero_def js_gt_def ToInteger_def)
qed

lemma parse_serialised:
  assumes "CHR ''|'' \<notin> set g" "0 < a" "a \<le> 8640000000000000" "0 < r" "r \<le> 8640000000000000"
  shows "automaticSession (fst (initializeAutomaticSessionWithData
            (join CHR ''|'' [guidString (Some g), dateString h (Some (Fin (of_int a))),
                            dateString h (Some (Fin (of_int r)))]) (m', h')))
         = (automaticSession m')\<lparr>id' := Some g, acquisitionDate := Some (Fin (of_int a)),
              renewalDate := Some (Fin (of_int r))\<rparr>"
proof -
  have sa: "dateString h (Some (Fin (of_int a))) = digits_of (nat a)"
    and sr: "dateString h (Some (Fin (of_int r))) = digits_of (nat r)"
    using assms by (simp_all add: dateString_def NumberToString_int)
  have sp: "split CHR ''|'' (join CHR ''|'' [g, digits_of (nat a), digits_of (nat r)])
              = [g, digits_of (nat a), digits_of (nat r)]"
    using assms(1) by (rule split_triple) (rule bar_notin_digits_of)+
  have na: "StringToNumber (digits_of (nat a)) = Fin (of_int a)"
    and nr: "StringToNumber (digits_of (nat r)) = Fin (of_int r)"
    using assms by (simp_all add: StringToNumber_digits_of)
  show ?thesis
    unfolding parse_eq sa sr guidString_def option.case sp Let_def
    by (simp add: na nr Date_int[OF assms(2,3)] Date_int[OF assms(4,5)] del: TimeClip.simps)
qed

subsection \<open>What the parser does with the numeric fields\<close>

lemma num_minus5: "StringToNumber ''-5'' = Fin (- 5)"
  by (simp add: s2n_defs)

lemma split_minus5:
  "split CHR ''|'' ''abc|notanumber|-5'' = [''abc'', ''notanumber'', ''-5'']"
  by simp

lemma split_three:
  assumes "d \<notin> set x" "d \<notin> set y" "d \<notin> set z"
  shows "split d (x @ d # y @ d # z) = [x, y, z]"
  using assms by (simp add: split_append split_single)

text \<open>
  Claim C10, as stated, fails in its last part: a valid number in field 2 is not always
  what \<^verbatim>\<open>renewalDate\<close> becomes. In \<^verbatim>\<open>abc|notanumber|-5\<close> field 2 coerces to the number
  -5, and \<^verbatim>\<open>renewalDate\<close> is set to 0.
\<close>

theorem parse_field2_counterexample:
  "StringToNumber ''-5'' = Fin (- 5)
   \<and> renewalDate (automaticSession (fst (initializeAutomaticSessionWithData
         ''abc|notanumber|-5'' (constructor None, exampleHost Map.empty (\<lambda>k. 0))))) = Some (Fin 0)"
  unfolding parse_eq split_minus5
  by (simp add: num_minus5 num_notanumber positiveOrZero_def js_gt_def maxTime_def ToInteger_def)

text \<open>
  Claim C10, amended. For every string payload the \<^verbatim>\<open>try\<close> block of
  \<^verbatim>\<open>initializeAutomaticSessionWithData\<close> completes without an exception, so the
  \<^verbatim>\<open>catch\<close> branch is not taken: the log afterwards is the log before, followed by the
  zero-renewal-date warning when \<^verbatim>\<open>renewalDate\<close> is 0, and by nothing else. Whatever
  field 1 is, a field 2 that is present is coerced: \<^verbatim>\<open>renewalDate\<close> is the time value of
  the date built from the number of field 2 when that is positive, and 0 otherwise. When
  field 2 is the decimal form of a positive integer not above 8640000000000000,
  \<^verbatim>\<open>renewalDate\<close> is that integer, as 2000 in \<^verbatim>\<open>abc|notanumber|2000\<close>.
\<close>

theorem parse_never_throws:
  "(\<exists>s'. parseDates s (split CHR ''|'' d) = Inr s')
   \<and> logged (snd (initializeAutomaticSessionWithData d (m, h))) = logged h @
        (if renewalDate (automaticSession (fst (initializeAutomaticSessionWithData d (m, h))))
              = Some (Fin 0)
         then [(WARNING, SessionRenewalDateIsZero)] else [])
   \<and> (2 < length (split CHR ''|'' d)
        \<longrightarrow> renewalDate (automaticSession (fst (initializeAutomaticSessionWithData d (m, h))))
             = Some (positiveOrZero (TimeClip (StringToNumber (split CHR ''|'' d ! 2)))))
   \<and> (CHR ''|'' \<notin> set f0 \<and> CHR ''|'' \<notin> set f1 \<and> 0 < n \<and> n \<le> 8640000000000000
        \<longrightarrow> renewalDate (automaticSession (fst (initializeAutomaticSessionWithData
               (f0 @ ''|'' @ f1 @ ''|'' @ digits_of (nat n)) (m, h)))) = Some (Fin (of_int n)))"
proof (intro conjI impI)
  show "\<exists>s'. parseDates s (split CHR ''|'' d) = Inr s'"
    by (simp add: parseDates_eq)
  show "logged (snd (initializeAutomaticSessionWithData d (m, h))) = logged h @
        (if renewalDate (automaticSession (fst (initializeAutomaticSessionWithData d (m, h))))
              = Some (Fin 0)
         then [(WARNING, SessionRenewalDateIsZero)] else [])"
    by (simp add: parse_eq Let_def)
  show "renewalDate (automaticSession (fst (initializeAutomaticSessionWithData d (m, h))))
             = Some (positiveOrZero (TimeClip (StringToNumber (split CHR ''|'' d ! 2))))"
    if "2 < length (split CHR ''|'' d)"
    using that by (simp add: parse_eq Let_def)
  show "renewalDate (automaticSession (fst (initializeAutomaticSessionWithData
               (f0 @ ''|'' @ f1 @ ''|'' @ digits_of (nat n)) (m, h)))) = Some (Fin (of_int n))"
    if a: "CHR ''|'' \<notin> set f0 \<and> CHR ''|'' \<notin> set f1 \<and> 0 < n \<and> n \<le> 8640000000000000"
  proof -
    have sp: "split CHR ''|'' (f0 @ ''|'' @ f1 @ ''|'' @ digits_of (nat n))
                = [f0, f1, digits_of (nat n)]"
      using a split_three[of "CHR ''|''" f0 f1 "digits_of (nat n)"] bar_notin_digits_of[of "nat n"]
      by simp
    have "nat n < 2 ^ 53" using a by (simp add: nat_less_iff)
    then have nr: "StringToNumber (digits_of (nat n)) = Fin (of_int n)"
      using a by (simp add: StringToNumber_digits_of)
    from a have dt: "positiveOrZero (TimeClip (Fin (of_int n))) = Fin (of_int n)"
      by (intro Date_int) simp_all
    show ?thesis
      unfolding parse_eq sp Let_def by (simp add: nr dt del: TimeClip.simps)
  qed
qed

theorem parse_never_throws_witness:
  "renewalDate (automaticSession (fst (initializeAutomaticSessionWithData ''abc|notanumber|2000''
       (constructor None, exampleHost Map.empty (\<lambda>k. 0))))) = Some (Fin 2000)
   \<and> logged (snd (initializeAutomaticSessionWithData ''abc|notanumber|2000''
       (constructor None, exampleHost Map.empty (\<lambda>k. 0)))) = []"
proof -
  let ?st = "(constructor None, exampleHost Map.empty (\<lambda>k. 0))"
  have d: "digits_of 2000 = ''2000''" by (simp add: digits_of.simps digit_char_def)
  have l: "logged (exampleHost Map.empty (\<lambda>k. 0)) = []" by (simp add: exampleHost_def)
  note t = parse_never_throws[of "automaticSession (constructor None)" "''abc|notanumber|2000''"
      "constructor None" "exampleHost Map.empty (\<lambda>k. 0)" "''abc''" "''notanumber''" 2000]
  have r: "renewalDate (automaticSession (fst (initializeAutomaticSessionWithData
        ''abc|notanumber|2000'' ?st))) = Some (Fin 2000)"
    using t[THEN conjunct2, THEN conjunct2, THEN conjunct2] by (simp add: d)
  show ?thesis
    using t[THEN conjunct2, THEN conjunct1] by (simp add: r l)
qed


text \<open>
  Claim C4, as stated, fails: parsing \<^verbatim>\<open>abc|notanumber|2000\<close> into a fresh manager
  does normalise \<^verbatim>\<open>acquisitionDate\<close> to 0, but no critical entry is logged.
\<close>

theorem parse_malformed_counterexample:
  "\<not> (acquisitionDate (automaticSession (fst (initializeAutomaticSessionWithData
          ''abc|notanumber|2000'' (constructor None, exampleHost Map.empty (\<lambda>k. 0)))))
        = Some (Fin 0)
      \<and> (CRITICAL, ErrorParsingAISessionCookie)
          \<in> set (logged (snd (initializeAutomaticSessionWithData
               ''abc|notanumber|2000'' (constructor None, exampleHost Map.empty (\<lambda>k. 0))))))"
  by (simp add: parse_malformed exampleHost_def)

text \<open>
  Claim C4, amended. Parsing \<^verbatim>\<open>abc|notanumber|2000\<close> raises nothing: the \<^verbatim>\<open>try\<close>
  block completes normally, \<^verbatim>\<open>acquisitionDate\<close> is normalised to 0, \<^verbatim>\<open>renewalDate\<close>
  is 2000, the id is \<^verbatim>\<open>abc\<close>, and the host, its log included, is left as it was: no
  critical entry and no warning.
\<close>

theorem parse_malformed_recovers:
  "parseDates s (split CHR ''|'' ''abc|notanumber|2000'')
     = Inr (s\<lparr>acquisitionDate := Some (Fin 0), renewalDate := Some (Fin 2000)\<rparr>)
   \<and> initializeAutomaticSessionWithData ''abc|notanumber|2000'' (m, h) =
     (m\<lparr>automaticSession := (automaticSession m)\<lparr>id' := Some ''abc'',
          acquisitionDate := Some (Fin 0), renewalDate := Some (Fin 2000)\<rparr>\<rparr>, h)"
  unfolding parse_malformed parseDates_eq split_malformed
  by (simp add: num_notanumber num_2000 positiveOrZero_def js_gt_def maxTime_def ToInteger_def)

subsection \<open>Serialising and parsing back\<close>

text \<open>
  Claim C5, as stated, fails. A \<^verbatim>\<open>Date\<close> holds no time value beyond 8.64e15 ms: the
  session \<^verbatim>\<open>abc\<close> with acquisition date 8640000000000001 and renewal date 1 is stored
  as \<^verbatim>\<open>abc|8640000000000001|1\<close>, and parsing that payload gives acquisition date 0.
\<close>

theorem roundtrip_counterexample:
  "storage (snd (backup (managerWith \<lparr>id' = Some ''abc'',
        acquisitionDate = Some (Fin 8640000000000001), renewalDate = Some (Fin 1)\<rparr> None,
      exampleHost Map.empty (\<lambda>k. 0)))) ''ai_session'' = Some ''abc|8640000000000001|1''
   \<and> acquisitionDate (automaticSession (fst (initializeAutomaticSessionWithData
        ''abc|8640000000000001|1'' (constructor None, exampleHost Map.empty (\<lambda>k. 0)))))
       = Some (Fin 0)"
proof -
  have k: "storageNamePrefix (config (constructor None)) = ''ai_session''"
    by (simp add: constructor_def storageNamePrefix_def cookieNameConst_def)
  have d: "digits_of 8640000000000001 = ''8640000000000001''" "digits_of (Suc 0) = ''1''"
    by (simp_all add: digits_of.simps digit_char_def)
  have n: "StringToNumber ''8640000000000001'' = Fin 8640000000000001"
    by (simp add: s2n_defs)
  have sp: "split CHR ''|'' ''abc|8640000000000001|1'' = [''abc'', ''8640000000000001'', ''1'']"
    by simp
  show ?thesis
    unfolding backup_eq parse_eq sp Let_def
    by (simp add: k managerWith_def dateString_def NumberToString_def guidString_def d n
        exampleHost_def positiveOrZero_def js_gt_def maxTime_def)
qed

text \<open>
  Claim C5, amended. For every session whose id contains no \<^verbatim>\<open>|\<close> and whose
  acquisition and renewal dates are positive integers not above 8640000000000000 (the
  largest time value of a \<^verbatim>\<open>Date\<close>), the payload that \<^verbatim>\<open>backup\<close> stores parses, into
  any manager, to the same id, acquisition date and renewal date.
\<close>

theorem roundtrip:
  assumes "CHR ''|'' \<notin> set g" "0 < a" "a \<le> 8640000000000000" "0 < r" "r \<le> 8640000000000000"
    and "automaticSession m = \<lparr>id' = Some g, acquisitionDate = Some (Fin (of_int a)),
           renewalDate = Some (Fin (of_int r))\<rparr>"
  shows "\<exists>p. storage (snd (backup (m, h))) (storageNamePrefix (config m)) = Some p
           \<and> automaticSession (fst (initializeAutomaticSessionWithData p (m', h')))
               = automaticSession m"
  using parse_serialised[OF assms(1-5), of h m' h'] assms(6)
  by (simp add: backup_eq)

theorem roundtrip_witness:
  "\<exists>p. storage (snd (backup (managerWith \<lparr>id' = Some ''abc'',
        acquisitionDate = Some (Fin 1000), renewalDate = Some (Fin 2000)\<rparr> None,
      exampleHost Map.empty (\<lambda>k. 0)))) ''ai_session'' = Some p
     \<and> automaticSession (fst (initializeAutomaticSessionWithData p
          (constructor None, exampleHost Map.empty (\<lambda>k. 0))))
        = \<lparr>id' = Some ''abc'', acquisitionDate = Some (Fin 1000), renewalDate = Some (Fin 2000)\<rparr>"
  using roundtrip[of "''abc''" 1000 2000 "managerWith \<lparr>id' = Some ''abc'',
        acquisitionDate = Some (Fin 1000), renewalDate = Some (Fin 2000)\<rparr> None"
        "exampleHost Map.empty (\<lambda>k. 0)" "constructor None" "exampleHost Map.empty (\<lambda>k. 0)"]
  by (simp add: managerWith_def constructor_def storageNamePrefix_def cookieNameConst_def)

subsection \<open>Keep-alive writes and their throttle\<close>

lemma first_update_at_epoch:
  "automaticSession (fst (update (constructor None, epochHost)))
     = \<lparr>id' = Some ''id0'', acquisitionDate = Some (Fin 0), renewalDate = Some (Fin 0)\<rparr>"
  "cookieUpdatedTimestamp (fst (update (constructor None, epochHost))) = Some (Fin 0)"
  "config (fst (update (constructor None, epochHost))) = config (constructor None)"
  "clock (snd (update (constructor None, epochHost))) = (\<lambda>k. if k < 4 then 0 else 1000)"
  "ticks (snd (update (constructor None, epochHost))) = 4"
  "renderNumber (snd (update (constructor None, epochHost))) = (\<lambda>q. ''?'')"
  "utcFormat (snd (update (constructor None, epochHost))) = (\<lambda>t. digits_of (nat t))"
  "cookieWrites (snd (update (constructor None, epochHost)))
     = [(''ai_session'', ''id0|0|0;expires=1800000'', None),
        (''ai_session'', ''id0|0|0;expires=1800000'', None)]"
  by (simp_all add: update_def initializeAutomaticSession_def epochHost_def exampleHost_def
      default_config Util_getCookie_def Util_getStorage_def renew_def setCookie_eq
      DateTimeUtils_Now_def Util_newId_def Util_canUseLocalStorage_def Let_def
      acquisitionExpired_def renewalExpired_def js_gt_def js_sub_def renewalSpan_def
      acquisitionSpan_def digits_of.simps digit_char_def guidString_def dateString_def
      NumberToString_def toUTCString_def maxTime_def ToInteger_def)

text \<open>
  Claim C3. For a session within both expiry windows, \<^verbatim>\<open>update\<close> calls within
  \<^verbatim>\<open>cookieUpdateInterval\<close> (60000 ms) of the last cookie write leave \<^verbatim>\<open>renewalDate\<close>
  unchanged and write no cookie. The code breaks this when the last write was stamped 0,
  because \<^verbatim>\<open>!this.cookieUpdatedTimestamp\<close> takes the timestamp 0 for a missing one. A
  fresh manager whose first \<^verbatim>\<open>update\<close> runs at clock reading 0 records the timestamp 0
  (after two cookie writes); its second \<^verbatim>\<open>update\<close> at reading 1000 is within both
  windows and 1000 ms after that write, and yet it moves \<^verbatim>\<open>renewalDate\<close> from 0 to 1000
  and writes the cookie again.
\<close>

theorem throttle_counterexample:
  "cookieUpdatedTimestamp (fst (update (constructor None, epochHost))) = Some (Fin 0)
   \<and> clock (snd (update (constructor None, epochHost)))
        (ticks (snd (update (constructor None, epochHost)))) = 1000
   \<and> \<not> acquisitionExpired (fst (update (constructor None, epochHost))) 1000
   \<and> \<not> renewalExpired (fst (update (constructor None, epochHost))) 1000
   \<and> \<not> js_gt (js_sub (Fin 1000) (Fin 0)) (Fin cookieUpdateInterval)
   \<and> renewalDate (automaticSession (fst (update (constructor None, epochHost)))) = Some (Fin 0)
   \<and> renewalDate (automaticSession (fst (update (update (constructor None, epochHost)))))
        = Some (Fin 1000)
   \<and> cookieWrites (snd (update (update (constructor None, epochHost))))
        = cookieWrites (snd (update (constructor None, epochHost)))
           @ [(''ai_session'', ''id0|0|1000;expires=1801000'', None)]"
proof -
  obtain m1 h1 where s: "update (constructor None, epochHost) = (m1, h1)"
    by (cases "update (constructor None, epochHost)")
  from first_update_at_epoch[unfolded s]
  have f: "automaticSession m1
        = \<lparr>id' = Some ''id0'', acquisitionDate = Some (Fin 0), renewalDate = Some (Fin 0)\<rparr>"
    "cookieUpdatedTimestamp m1 = Some (Fin 0)" "config m1 = config (constructor None)"
    "clock h1 = (\<lambda>k. if k < 4 then 0 else 1000)" "ticks h1 = 4"
    "renderNumber h1 = (\<lambda>q. ''?'')" "utcFormat h1 = (\<lambda>t. digits_of (nat t))"
    "cookieWrites h1 = [(''ai_session'', ''id0|0|0;expires=1800000'', None),
        (''ai_session'', ''id0|0|0;expires=1800000'', None)]"
    by simp_all
  have i: "\<not> not_string (id' (automaticSession m1))" by (simp add: f)
  show ?thesis
    unfolding s update_initialised[OF i]
    by (simp add: f acquisitionExpired_def renewalExpired_def default_config js_gt_def
        renewalSpan_def acquisitionSpan_def cookieUpdateInterval_def setCookie_eq
        guidString_def dateString_def NumberToString_def toUTCString_def maxTime_def
        ToInteger_def digits_of.simps digit_char_def epochHost_def exampleHost_def)
qed

subsection \<open>Forced renewal\<close>

lemma parse_abc:
  "initializeAutomaticSessionWithData ''abc|1000|1000'' (m, h) =
     (m\<lparr>automaticSession := (automaticSession m)\<lparr>id' := Some ''abc'',
          acquisitionDate := Some (Fin 1000), renewalDate := Some (Fin 1000)\<rparr>\<rparr>, h)"
proof -
  have sp: "split CHR ''|'' ''abc|1000|1000'' = [''abc'', ''1000'', ''1000'']" by simp
  have n: "StringToNumber ''1000'' = Fin 1000" by (simp add: s2n_defs)
  show ?thesis
    unfolding parse_eq sp
    by (simp add: n positiveOrZero_def js_gt_def maxTime_def ToInteger_def)
qed

lemma init_persisted:
  assumes "cookies h (storageNamePrefix (config m)) = Some p
           \<or> (not_string (cookies h (storageNamePrefix (config m)))
               \<and> storage h (storageNamePrefix (config m)) = Some p)"
    and "p \<noteq> []"
  shows "initializeAutomaticSession (m, h) =
     (if not_string (id' (automaticSession (fst (initializeAutomaticSessionWithData p (m, h)))))
      then renew (initializeAutomaticSessionWithData p (m, h))
      else initializeAutomaticSessionWithData p (m, h))"
  using assms
  by (auto simp: initializeAutomaticSession_def Util_getCookie_def Util_getStorage_def Let_def
      stringValue_def)


lemma clip_choice:
  "(if js_lt x y then TimeClip x else TimeClip y)
     = TimeClip (if x = NaN then y else js_min x y)"
  by (cases x; cases y) simp_all

lemma renew_cookie:
  "cookieWrites (snd (renew (m, h))) = cookieWrites h @
      [(storageNamePrefix (config m),
        idgen h (minted h) @ ''|'' @
          NumberToString (renderNumber h) (Fin (clock h (ticks h))) @ ''|'' @
          NumberToString (renderNumber h) (Fin (clock h (ticks h))) @ '';expires='' @
          toUTCString h (TimeClip
            (if js_add (Fin (clock h (ticks h))) (sessionExpirationMs (config m) ()) = NaN
             then js_add (Fin (clock h (ticks h))) (sessionRenewalMs (config m) ())
             else js_min
               (js_add (Fin (clock h (ticks h))) (sessionExpirationMs (config m) ()))
               (js_add (Fin (clock h (ticks h))) (sessionRenewalMs (config m) ())))),
        case cookieDomain (config m) of None \<Rightarrow> None | Some f \<Rightarrow> Some (f ()))]"
  unfolding renew_effects(1) clip_choice by (simp add: dateString_def)

lemma exampleHost_fields:
  "cookies (exampleHost jar readings) = jar"
  "storage (exampleHost jar readings) = Map.empty"
  "cookieWrites (exampleHost jar readings) = []"
  "clock (exampleHost jar readings) = readings"
  "ticks (exampleHost jar readings) = 0"
  "idgen (exampleHost jar readings) = (\<lambda>k. ''id'' @ digits_of k)"
  "minted (exampleHost jar readings) = 0"
  "logged (exampleHost jar readings) = []"
  "renderNumber (exampleHost jar readings) = (\<lambda>q. ''?'')"
  "utcFormat (exampleHost jar readings) = (\<lambda>t. digits_of (nat t))"
  "canUseLocalStorage (exampleHost jar readings)"
  by (simp_all add: exampleHost_def)

lemma constructor_timestamp: "(constructor None)\<lparr>cookieUpdatedTimestamp := None\<rparr> = constructor None"
  by (simp add: constructor_def)

lemma exact_difference:
  assumes "representable (r + 1)"
  shows "js_gt (js_sub (Fin (1000 + r + 1)) (Fin 1000)) (Fin r)"
proof -
  have "js_sub (Fin (1000 + r + 1)) (Fin 1000) = Fin (r + 1)"
  proof (cases "1000 + r + 1 = 0")
    case True
    then have "r + 1 = - 1000" by simp
    with True show ?thesis by (simp add: js_sub_def)
  next
    case False
    have "round64 (1 + r) = Fin (r + 1)"
      using assms by (simp add: representable_def add.commute)
    with False show ?thesis by (simp add: js_sub_def)
  qed
  then show ?thesis by (simp add: js_gt_def)
qed

lemma renewal_after_window:
  assumes "not_string (id' (automaticSession m))"
    and "cookies h (storageNamePrefix (config m)) = Some ''abc|1000|1000''
         \<or> (not_string (cookies h (storageNamePrefix (config m)))
             \<and> storage h (storageNamePrefix (config m)) = Some ''abc|1000|1000'')"
    and "sessionRenewalMs (config m) () = Fin r"
    and "clock h (ticks h) = 1000 + r + 1"
    and "representable (r + 1)"
  shows "automaticSession (fst (update (m\<lparr>cookieUpdatedTimestamp := ts\<rparr>, h)))
           = \<lparr>id' = Some (idgen h (minted h)),
              acquisitionDate = Some (Fin (clock h (Suc (ticks h)))),
              renewalDate = Some (Fin (clock h (Suc (ticks h))))\<rparr>
       \<and> cookieWrites (snd (update (m\<lparr>cookieUpdatedTimestamp := ts\<rparr>, h))) = cookieWrites h @
             [(storageNamePrefix (config m),
               idgen h (minted h) @ ''|'' @
                 NumberToString (renderNumber h) (Fin (clock h (Suc (ticks h)))) @ ''|'' @
                 NumberToString (renderNumber h) (Fin (clock h (Suc (ticks h)))) @ '';expires='' @
                 toUTCString h (TimeClip
                   (if js_add (Fin (clock h (Suc (ticks h)))) (sessionExpirationMs (config m) ())
                         = NaN
                    then js_add (Fin (clock h (Suc (ticks h)))) (Fin r)
                    else js_min
                      (js_add (Fin (clock h (Suc (ticks h)))) (sessionExpirationMs (config m) ()))
                      (js_add (Fin (clock h (Suc (ticks h)))) (Fin r)))),
               case cookieDomain (config m) of None \<Rightarrow> None | Some f \<Rightarrow> Some (f ()))]"
proof -
  let ?m = "m\<lparr>cookieUpdatedTimestamp := ts\<rparr>"
  let ?m1 = "?m\<lparr>automaticSession := (automaticSession m)\<lparr>id' := Some ''abc'',
          acquisitionDate := Some (Fin 1000), renewalDate := Some (Fin 1000)\<rparr>\<rparr>"
  have i: "initializeAutomaticSession (?m, h) = (?m1, h)"
    using init_persisted[of h ?m "''abc|1000|1000''"] assms(2) by (simp add: parse_abc)
  have u: "update (?m, h) = update (?m1, h)"
    by (rule update_after_init[OF _ i]) (simp_all add: assms(1))
  have e: "renewalExpired ?m1 (clock h (ticks h))"
    using exact_difference[OF assms(5)] by (simp add: renewalExpired_def assms(3,4))
  have "update (?m, h) = renew (?m1, h\<lparr>ticks := Suc (ticks h)\<rparr>)"
    unfolding u using e by (simp add: update_initialised)
  then show ?thesis
    by (simp add: renew_session renew_cookie assms(3)
        del: js_add.simps TimeClip.simps js_min.simps js_lt.simps)
qed


text \<open>
  Claim C2, as stated, fails in two of its conclusions. \<^verbatim>\<open>renew\<close> reads the clock
  again, so the dates are the reading after \<^verbatim>\<open>now\<close>: with the default renewal span
  and a clock that reads 1801001 and then 1801002, \<^verbatim>\<open>now\<close> is
  \<open>1000 + 1800000 + 1\<close> and \<^verbatim>\<open>acquisitionDate\<close> becomes 1801002. And the new id is
  whatever \<^verbatim>\<open>Util.newId\<close> returns: with a generator that returns \<^verbatim>\<open>abc\<close> the renewed
  id is \<^verbatim>\<open>abc\<close> again.
\<close>

theorem update_renews_counterexample:
  "clock (exampleHost [''ai_session'' \<mapsto> ''abc|1000|1000''] (\<lambda>k. 1801001 + of_nat k)) 0
     = 1000 + 1800000 + 1
   \<and> acquisitionDate (automaticSession (fst (update (constructor None,
         exampleHost [''ai_session'' \<mapsto> ''abc|1000|1000''] (\<lambda>k. 1801001 + of_nat k)))))
       = Some (Fin 1801002)
   \<and> id' (automaticSession (fst (update (constructor None,
         (exampleHost [''ai_session'' \<mapsto> ''abc|1000|1000''] (\<lambda>k. 1801001))
           \<lparr>idgen := (\<lambda>k. ''abc'')\<rparr>)))) = Some ''abc''"
proof -
  let ?h = "exampleHost [''ai_session'' \<mapsto> ''abc|1000|1000''] (\<lambda>k. 1801001 + of_nat k)"
  let ?g = "(exampleHost [''ai_session'' \<mapsto> ''abc|1000|1000''] (\<lambda>k. 1801001))
           \<lparr>idgen := (\<lambda>k. ''abc'')\<rparr>"
  have r: "representable (1800000 + 1)"
    using representable_int[of 1800001] by simp
  have 1: "acquisitionDate (automaticSession (fst (update (constructor None, ?h))))
       = Some (Fin 1801002)"
    using renewal_after_window[of "constructor None" ?h 1800000 None, OF _ _ _ _ r]
    by (simp add: default_config exampleHost_fields renewalSpan_def constructor_timestamp)
  have 2: "id' (automaticSession (fst (update (constructor None, ?g)))) = Some ''abc''"
    using renewal_after_window[of "constructor None" ?g 1800000 None, OF _ _ _ _ r]
    by (simp add: default_config exampleHost_fields renewalSpan_def constructor_timestamp)
  from 1 2 show ?thesis by (simp add: exampleHost_fields)
qed

text \<open>
  Claim C2, amended. The session is not yet initialised and the persisted payload (the
  cookie, or local storage when there is no cookie) is \<^verbatim>\<open>abc|1000|1000\<close>; the time
  \<^verbatim>\<open>update\<close> reads is \<open>now = 1000 + sessionRenewalMs() + 1\<close>, where
  \<open>sessionRenewalMs() + 1\<close> is a double, so that \<open>now - 1000\<close> is exact. Then \<^verbatim>\<open>update\<close>
  renews, whatever \<^verbatim>\<open>cookieUpdatedTimestamp\<close> was: the id is the id the generator
  returns next, \<^verbatim>\<open>acquisitionDate\<close> and \<^verbatim>\<open>renewalDate\<close> are the time \<^verbatim>\<open>renew\<close> reads
  (the clock reading after \<open>now\<close>), and exactly one cookie write is appended, of the
  new id and that time twice, with the expiry that \<^verbatim>\<open>setCookie\<close> computes.
\<close>

theorem update_renews_after_renewal_window:
  assumes "not_string (id' (automaticSession m))"
    and "cookies h (storageNamePrefix (config m)) = Some ''abc|1000|1000''
         \<or> (not_string (cookies h (storageNamePrefix (config m)))
             \<and> storage h (storageNamePrefix (config m)) = Some ''abc|1000|1000'')"
    and "sessionRenewalMs (config m) () = Fin r"
    and "clock h (ticks h) = 1000 + r + 1"
    and "representable (r + 1)"
  shows "automaticSession (fst (update (m\<lparr>cookieUpdatedTimestamp := ts\<rparr>, h)))
           = \<lparr>id' = Some (idgen h (minted h)),
              acquisitionDate = Some (Fin (clock h (Suc (ticks h)))),
              renewalDate = Some (Fin (clock h (Suc (ticks h))))\<rparr>
       \<and> cookieWrites (snd (update (m\<lparr>cookieUpdatedTimestamp := ts\<rparr>, h))) = cookieWrites h @
             [(storageNamePrefix (config m),
               idgen h (minted h) @ ''|'' @
                 NumberToString (renderNumber h) (Fin (clock h (Suc (ticks h)))) @ ''|'' @
                 NumberToString (renderNumber h) (Fin (clock h (Suc (ticks h)))) @ '';expires='' @
                 toUTCString h (TimeClip
                   (if js_add (Fin (clock h (Suc (ticks h)))) (sessionExpirationMs (config m) ())
                         = NaN
                    then js_add (Fin (clock h (Suc (ticks h)))) (Fin r)
                    else js_min
                      (js_add (Fin (clock h (Suc (ticks h)))) (sessionExpirationMs (config m) ()))
                      (js_add (Fin (clock h (Suc (ticks h)))) (Fin r)))),
               case cookieDomain (config m) of None \<Rightarrow> None | Some f \<Rightarrow> Some (f ()))]"
  using assms by (rule renewal_after_window)

theorem update_renews_after_renewal_window_witness:
  "automaticSession (fst (update ((constructor None)\<lparr>cookieUpdatedTimestamp := Some (Fin 1801000)\<rparr>,
       exampleHost [''ai_session'' \<mapsto> ''abc|1000|1000''] (\<lambda>k. 1801001 + of_nat k))))
     = \<lparr>id' = Some ''id0'', acquisitionDate = Some (Fin 1801002), renewalDate = Some (Fin 1801002)\<rparr>
   \<and> cookieWrites (snd (update ((constructor None)\<lparr>cookieUpdatedTimestamp := Some (Fin 1801000)\<rparr>,
       exampleHost [''ai_session'' \<mapsto> ''abc|1000|1000''] (\<lambda>k. 1801001 + of_nat k))))
     = [(''ai_session'', ''id0|1801002|1801002;expires=3601002'', None)]"
proof -
  let ?h = "exampleHost [''ai_session'' \<mapsto> ''abc|1000|1000''] (\<lambda>k. 1801001 + of_nat k)"
  have r: "representable (1800000 + 1)"
    using representable_int[of 1800001] by simp
  have d: "digits_of 0 = ''0''" "digits_of 1801002 = ''1801002''" "digits_of 3601002 = ''3601002''"
    by (simp_all add: digits_of.simps digit_char_def)
  have n: "NumberToString f (Fin 1801002) = ''1801002''" for f
    using NumberToString_int[of 1801002 f] d by simp
  show ?thesis
    using update_renews_after_renewal_window[of "constructor None" ?h 1800000
        "Some (Fin 1801000)", OF _ _ _ _ r]
    by (simp add: default_config exampleHost_fields renewalSpan_def acquisitionSpan_def d n
        toUTCString_def maxTime_def ToInteger_def)
qed


text \<open>
  Claim C9, as stated, fails for a current time that is not beyond the renewal span: with
  the default 1800000 ms and \<^verbatim>\<open>now\<close> = 1000, the session \<^verbatim>\<open>abc\<close> with renewal date 0 is
  not renewal-expired, keeps its id, and no id is minted.
\<close>

theorem zero_renewal_date_counterexample:
  "\<not> renewalExpired (managerWith \<lparr>id' = Some ''abc'', acquisitionDate = Some (Fin 0),
        renewalDate = Some (Fin 0)\<rparr> None) 1000
   \<and> id' (automaticSession (fst (update (managerWith \<lparr>id' = Some ''abc'',
        acquisitionDate = Some (Fin 0), renewalDate = Some (Fin 0)\<rparr> None,
        exampleHost Map.empty (\<lambda>k. 1000))))) = Some ''abc''
   \<and> minted (snd (update (managerWith \<lparr>id' = Some ''abc'',
        acquisitionDate = Some (Fin 0), renewalDate = Some (Fin 0)\<rparr> None,
        exampleHost Map.empty (\<lambda>k. 1000)))) = 0"
  by (simp add: update_initialised default_config acquisitionExpired_def renewalExpired_def
      js_gt_def js_sub_def renewalSpan_def acquisitionSpan_def setCookie_eq exampleHost_def)

text \<open>
  Claim C9, amended. For every session with a non-empty id and renewal date 0, and every
  current time \<^verbatim>\<open>now\<close> greater than \<^verbatim>\<open>sessionRenewalMs()\<close>, \<^verbatim>\<open>update\<close> classifies the
  session as renewal-expired and renews it: the id is the next one of the generator, which
  is consumed, and both dates are the time \<^verbatim>\<open>renew\<close> reads.
\<close>

theorem zero_renewal_date_renews:
  assumes "\<not> not_string (id' (automaticSession m))"
    and "renewalDate (automaticSession m) = Some (Fin 0)"
    and "js_gt (Fin (clock h (ticks h))) (sessionRenewalMs (config m) ())"
  shows "renewalExpired m (clock h (ticks h))
       \<and> automaticSession (fst (update (m, h)))
           = \<lparr>id' = Some (idgen h (minted h)),
              acquisitionDate = Some (Fin (clock h (Suc (ticks h)))),
              renewalDate = Some (Fin (clock h (Suc (ticks h))))\<rparr>
       \<and> minted (snd (update (m, h))) = Suc (minted h)"
proof -
  have e: "renewalExpired m (clock h (ticks h))"
    using assms(2,3) by (simp add: renewalExpired_def js_sub_def)
  then have "update (m, h) = renew (m, h\<lparr>ticks := Suc (ticks h)\<rparr>)"
    using assms(1) by (simp add: update_initialised)
  with e show ?thesis by (simp add: renew_session renew_effects)
qed

theorem zero_renewal_date_renews_witness:
  "automaticSession (fst (update (managerWith \<lparr>id' = Some ''abc'', acquisitionDate = Some (Fin 0),
        renewalDate = Some (Fin 0)\<rparr> None, exampleHost Map.empty (\<lambda>k. 1800001))))
     = \<lparr>id' = Some ''id0'', acquisitionDate = Some (Fin 1800001), renewalDate = Some (Fin 1800001)\<rparr>"
  using zero_renewal_date_renews[of "managerWith \<lparr>id' = Some ''abc'', acquisitionDate = Some (Fin 0),
        renewalDate = Some (Fin 0)\<rparr> None" "exampleHost Map.empty (\<lambda>k. 1800001)"]
  by (simp add: default_config exampleHost_def renewalSpan_def js_gt_def digits_of.simps digit_char_def)

subsection \<open>The expiry of the cookie\<close>





subsection \<open>The invariant between the id and the dates\<close>

lemma allSet_invariant: "allSet s \<Longrightarrow> sessionInvariant s"
  by (simp add: allSet_def sessionInvariant_def)

lemma renew_allSet: "allSet (automaticSession (fst (renew st)))"
  by (cases st) (simp add: renew_session allSet_def)

lemma parse_invariant:
  "sessionInvariant (automaticSession (fst (initializeAutomaticSessionWithData d (m, h)))) =
     ((1 < length (split CHR ''|'' d) \<or> acquisitionDate (automaticSession m) \<noteq> None)
      \<and> (2 < length (split CHR ''|'' d) \<or> renewalDate (automaticSession m) \<noteq> None))"
  by (simp add: parse_eq Let_def sessionInvariant_def)

lemma update_invariant:
  "sessionInvariant (automaticSession (fst (update (m, h)))) =
     (case (if not_string (id' (automaticSession m)) then initializeAutomaticSession (m, h)
            else (m, h)) of
        (m1, h1) \<Rightarrow>
          acquisitionExpired m1 (clock h1 (ticks h1)) \<or> renewalExpired m1 (clock h1 (ticks h1))
          \<or> (if not_number (cookieUpdatedTimestamp m1)
                  \<or> js_gt (js_sub (Fin (clock h1 (ticks h1))) (ToNumber (cookieUpdatedTimestamp m1)))
                       (Fin cookieUpdateInterval)
              then (id' (automaticSession m1) \<noteq> None) = (acquisitionDate (automaticSession m1) \<noteq> None)
              else sessionInvariant (automaticSession m1)))"
proof -
  obtain m1 h1 where s1: "(if not_string (id' (automaticSession m))
       then initializeAutomaticSession (m, h) else (m, h)) = (m1, h1)"
    by (cases "if not_string (id' (automaticSession m))
       then initializeAutomaticSession (m, h) else (m, h)")
  have r: "sessionInvariant (automaticSession (fst (renew (m1, h1\<lparr>ticks := Suc (ticks h1)\<rparr>))))"
    by (rule allSet_invariant) (rule renew_allSet)
  show ?thesis
    unfolding update_unfold[OF s1] s1 using r
    by (auto simp: setCookie_trace sessionInvariant_def)
qed

lemma update_preserves_invariant:
  assumes "\<not> not_string (id' (automaticSession m))" and "sessionInvariant (automaticSession m)"
  shows "sessionInvariant (automaticSession (fst (update (m, h))))"
proof -
  from assms(1) have "id' (automaticSession m) \<noteq> None"
    by (cases "id' (automaticSession m)") auto
  with assms show ?thesis
    unfolding update_invariant by (auto simp: sessionInvariant_def)
qed

lemma init_invariant:
  "sessionInvariant (automaticSession (fst (initializeAutomaticSession (m, h)))) =
     (if \<not> not_string (cookies h (storageNamePrefix (config m)))
      then split CHR ''|'' (stringValue (cookies h (storageNamePrefix (config m)))) ! 0 = []
           \<or> sessionInvariant (automaticSession (fst (initializeAutomaticSessionWithData
                (stringValue (cookies h (storageNamePrefix (config m)))) (m, h))))
      else if \<not> not_string (storage h (storageNamePrefix (config m)))
      then split CHR ''|'' (stringValue (storage h (storageNamePrefix (config m)))) ! 0 = []
           \<or> sessionInvariant (automaticSession (fst (initializeAutomaticSessionWithData
                (stringValue (storage h (storageNamePrefix (config m)))) (m, h))))
      else not_string (id' (automaticSession m)) \<or> sessionInvariant (automaticSession m))"
proof -
  have r: "sessionInvariant (automaticSession (fst (renew st)))" for st
    by (rule allSet_invariant) (rule renew_allSet)
  show ?thesis
    by (auto simp: initializeAutomaticSession_def Util_getCookie_def Util_getStorage_def Let_def
        parse_id_set r)
qed

text \<open>
  Claim C8, as stated, fails: a payload with fewer than three fields sets the id and
  leaves the missing dates unset. Parsing \<^verbatim>\<open>abc\<close> gives a session with an id and no
  dates, and an \<^verbatim>\<open>update\<close> that initialises from the cookie \<^verbatim>\<open>abc\<close> ends with an id and
  a renewal date but no acquisition date.
\<close>

theorem invariant_counterexample:
  "\<not> sessionInvariant (automaticSession (fst (initializeAutomaticSessionWithData ''abc''
        (constructor None, exampleHost Map.empty (\<lambda>k. 5)))))
   \<and> \<not> sessionInvariant (automaticSession (fst (update
        (constructor None, exampleHost [''ai_session'' \<mapsto> ''abc''] (\<lambda>k. 5)))))"
proof -
  have sp: "split CHR ''|'' ''abc'' = [''abc'']" by simp
  have p: "initializeAutomaticSessionWithData ''abc'' (constructor None, h)
        = ((constructor None)\<lparr>automaticSession :=
             \<lparr>id' = Some ''abc'', acquisitionDate = None, renewalDate = None\<rparr>\<rparr>, h)" for h
    unfolding parse_eq sp by (simp add: default_config)
  let ?h = "exampleHost [''ai_session'' \<mapsto> ''abc''] (\<lambda>k. 5)"
  have i: "initializeAutomaticSession (constructor None, ?h)
        = ((constructor None)\<lparr>automaticSession :=
             \<lparr>id' = Some ''abc'', acquisitionDate = None, renewalDate = None\<rparr>\<rparr>, ?h)"
    using init_persisted[of ?h "constructor None" "''abc''"]
    by (simp add: default_config exampleHost_def p)
  have u: "update (constructor None, ?h)
        = update ((constructor None)\<lparr>automaticSession :=
             \<lparr>id' = Some ''abc'', acquisitionDate = None, renewalDate = None\<rparr>\<rparr>, ?h)"
    by (rule update_after_init[OF _ i]) (simp_all add: default_config)
  show ?thesis
    unfolding u
    by (simp add: p sessionInvariant_def update_initialised acquisitionExpired_def
        renewalExpired_def js_gt_def js_sub_def default_config setCookie_eq exampleHost_def)
qed

text \<open>
  Claim C8, amended. The constructor and \<^verbatim>\<open>renew\<close> leave a session that satisfies the
  invariant, and \<^verbatim>\<open>backup\<close> leaves the session as it is. After parsing a payload the
  invariant holds exactly when the payload has at least two fields or \<^verbatim>\<open>acquisitionDate\<close>
  was already set, and it has at least three fields or \<^verbatim>\<open>renewalDate\<close> was already set.
  \<^verbatim>\<open>update\<close> preserves the invariant from every state that satisfies it and whose id is a
  non-empty string.
  \<^verbatim>\<open>initializeAutomaticSession\<close> ends with the invariant exactly when the payload it
  reads (the cookie, else local storage) has an empty id field or leaves the invariant
  holding after the parse, or, when it reads none, the id was empty or unset or the
  invariant held before. In general \<^verbatim>\<open>update\<close> ends with the invariant exactly when, in
  the state after its lazy initialisation, an expiry window is exceeded (it renews), or
  it does the keep-alive write and id and \<^verbatim>\<open>acquisitionDate\<close> are both set or both unset,
  or the write is throttled and the invariant holds there.
\<close>

theorem invariant_where_it_holds:
  "sessionInvariant (automaticSession (constructor cfg))
   \<and> sessionInvariant (automaticSession (fst (renew (m, h))))
   \<and> automaticSession (fst (backup (m, h))) = automaticSession m
   \<and> sessionInvariant (automaticSession (fst (initializeAutomaticSessionWithData d (m, h)))) =
        ((1 < length (split CHR ''|'' d) \<or> acquisitionDate (automaticSession m) \<noteq> None)
         \<and> (2 < length (split CHR ''|'' d) \<or> renewalDate (automaticSession m) \<noteq> None))
   \<and> (\<not> not_string (id' (automaticSession m)) \<and> sessionInvariant (automaticSession m)
        \<longrightarrow> sessionInvariant (automaticSession (fst (update (m, h)))))
   \<and> sessionInvariant (automaticSession (fst (initializeAutomaticSession (m, h)))) =
        (if \<not> not_string (cookies h (storageNamePrefix (config m)))
         then split CHR ''|'' (stringValue (cookies h (storageNamePrefix (config m)))) ! 0 = []
              \<or> sessionInvariant (automaticSession (fst (initializeAutomaticSessionWithData
                   (stringValue (cookies h (storageNamePrefix (config m)))) (m, h))))
         else if \<not> not_string (storage h (storageNamePrefix (config m)))
         then split CHR ''|'' (stringValue (storage h (storageNamePrefix (config m)))) ! 0 = []
              \<or> sessionInvariant (automaticSession (fst (initializeAutomaticSessionWithData
                   (stringValue (storage h (storageNamePrefix (config m)))) (m, h))))
         else not_string (id' (automaticSession m)) \<or> sessionInvariant (automaticSession m))
   \<and> sessionInvariant (automaticSession (fst (update (m, h)))) =
        (case (if not_string (id' (automaticSession m)) then initializeAutomaticSession (m, h)
               else (m, h)) of
           (m1, h1) \<Rightarrow>
             acquisitionExpired m1 (clock h1 (ticks h1)) \<or> renewalExpired m1 (clock h1 (ticks h1))
             \<or> (if not_number (cookieUpdatedTimestamp m1)
                     \<or> js_gt (js_sub (Fin (clock h1 (ticks h1)))
                                (ToNumber (cookieUpdatedTimestamp m1)))
                          (Fin cookieUpdateInterval)
                 then (id' (automaticSession m1) \<noteq> None)
                        = (acquisitionDate (automaticSession m1) \<noteq> None)
                 else sessionInvariant (automaticSession m1)))"
proof (intro conjI impI)
  show "sessionInvariant (automaticSession (constructor cfg))"
    by (simp add: constructor_def sessionInvariant_def Let_def)
  show "sessionInvariant (automaticSession (fst (renew (m, h))))"
    by (rule allSet_invariant) (rule renew_allSet)
  show "automaticSession (fst (backup (m, h))) = automaticSession m"
    by (simp add: backup_eq)
  show "sessionInvariant (automaticSession (fst (update (m, h))))"
    if "\<not> not_string (id' (automaticSession m)) \<and> sessionInvariant (automaticSession m)"
    using that by (intro update_preserves_invariant) simp_all
qed (rule parse_invariant init_invariant update_invariant)+

theorem invariant_where_it_holds_witness:
  "sessionInvariant (automaticSession (fst (initializeAutomaticSessionWithData ''abc|1000|1000''
        (constructor None, exampleHost Map.empty (\<lambda>k. 2000)))))
   \<and> sessionInvariant (automaticSession (fst (update (managerWith \<lparr>id' = Some ''abc'',
        acquisitionDate = Some (Fin 1000), renewalDate = Some (Fin 1000)\<rparr> None,
        exampleHost Map.empty (\<lambda>k. 2000)))))
   \<and> sessionInvariant (automaticSession (fst (update (constructor None,
        exampleHost [''ai_session'' \<mapsto> ''|1000''] (\<lambda>k. 2000)))))"
proof -
  have sp: "split CHR ''|'' ''abc|1000|1000'' = [''abc'', ''1000'', ''1000'']" by simp
  note t = invariant_where_it_holds
  have 1: "sessionInvariant (automaticSession (fst (initializeAutomaticSessionWithData
        ''abc|1000|1000'' (constructor None, exampleHost Map.empty (\<lambda>k. 2000)))))"
    using t[of None "constructor None" "exampleHost Map.empty (\<lambda>k. 2000)" "''abc|1000|1000''",
        THEN conjunct2, THEN conjunct2, THEN conjunct2, THEN conjunct1] sp by simp
  have 2: "sessionInvariant (automaticSession (fst (update (managerWith \<lparr>id' = Some ''abc'',
        acquisitionDate = Some (Fin 1000), renewalDate = Some (Fin 1000)\<rparr> None,
        exampleHost Map.empty (\<lambda>k. 2000)))))"
    using t[of None "managerWith \<lparr>id' = Some ''abc'',
        acquisitionDate = Some (Fin 1000), renewalDate = Some (Fin 1000)\<rparr> None"
        "exampleHost Map.empty (\<lambda>k. 2000)" "[]",
        THEN conjunct2, THEN conjunct2, THEN conjunct2, THEN conjunct2, THEN conjunct1]
    by (simp add: default_config sessionInvariant_def)
  let ?h = "exampleHost [''ai_session'' \<mapsto> ''|1000''] (\<lambda>k. 2000)"
  have sq: "split CHR ''|'' ''|1000'' = [[], ''1000'']" by simp
  have n: "StringToNumber ''1000'' = Fin 1000" by (simp add: s2n_defs)
  have i: "automaticSession (fst (initializeAutomaticSession (constructor None, ?h)))
             = \<lparr>id' = Some ''id0'', acquisitionDate = Some (Fin 2000), renewalDate = Some (Fin 2000)\<rparr>"
    "cookieUpdatedTimestamp (fst (initializeAutomaticSession (constructor None, ?h)))
       = Some (Fin 2000)"
    "config (fst (initializeAutomaticSession (constructor None, ?h))) = config (constructor None)"
    "clock (snd (initializeAutomaticSession (constructor None, ?h))) = (\<lambda>k. 2000)"
    by (simp_all add: initializeAutomaticSession_def Util_getCookie_def Util_getStorage_def
        default_config exampleHost_fields stringValue_def parse_eq sq n Let_def renew_def
        setCookie_eq DateTimeUtils_Now_def Util_newId_def Util_canUseLocalStorage_def
        digits_of.simps digit_char_def)
  obtain m1 h1 where s: "initializeAutomaticSession (constructor None, ?h) = (m1, h1)"
    by (cases "initializeAutomaticSession (constructor None, ?h)")
  from i[unfolded s] have f: "automaticSession m1
        = \<lparr>id' = Some ''id0'', acquisitionDate = Some (Fin 2000), renewalDate = Some (Fin 2000)\<rparr>"
    "cookieUpdatedTimestamp m1 = Some (Fin 2000)" "config m1 = config (constructor None)"
    "clock h1 = (\<lambda>k. 2000)" by simp_all
  have 3: "sessionInvariant (automaticSession (fst (update (constructor None, ?h))))"
    using t[of None "constructor None" ?h "[]",
        THEN conjunct2, THEN conjunct2, THEN conjunct2, THEN conjunct2, THEN conjunct2,
        THEN conjunct2]
    by (simp add: default_config s f sessionInvariant_def)
  from 1 2 3 show ?thesis by simp
qed

end
